theory Spec2Isabelle
  imports Complex_Main
begin

section \<open>JavaScript values\<close>

text \<open>
  The sale-posting function \<open>crearDetalleVenta\<close> of \<open>references/transactions.md\<close>
  takes \<open>detalleVentaData: any[]\<close>: the fields of a line are untyped JavaScript values,
  and the code coerces them with \<open>Number(...)\<close>, tests them with \<open>!x\<close> and rounds them with
  \<open>parseFloat(x.toFixed(2))\<close>. The embedding therefore starts with the primitive values of
  the language and these operations.

  A JavaScript number is an IEEE-754 binary64 value: \<open>NaN\<close>, an infinity or a finite
  value, here the rational it denotes. Every arithmetic operation computes the exact
  result and rounds it to the nearest binary64 value (\<open>fl\<close> below). The sign of zero is
  not modelled.
\<close>

datatype jsnum = NaN | Fin rat | PosInf | NegInf

datatype jsval = JUndefined | JNull | JBool bool | JNum jsnum | JStr string

subsection \<open>Rounding to binary64\<close>

text \<open>The number of binary digits of a positive integer.\<close>

function bits :: "int \<Rightarrow> nat" where
  "bits n = (if n \<le> 0 then 0 else Suc (bits (n div 2)))"
  by pat_completeness auto
termination
  by (relation "measure nat") auto

declare bits.simps [simp del]

text \<open>\<open>n * 2^k\<close> for \<open>k \<ge> 0\<close>.\<close>

definition scale :: "int \<Rightarrow> int \<Rightarrow> int" where
  "scale n k = n * 2 ^ nat k"

text \<open>The binary exponent of \<open>p / d\<close>, for positive \<open>p\<close> and \<open>d\<close>: the \<open>e\<close> with
  \<open>2^e \<le> p / d < 2^(e + 1)\<close>.\<close>

definition exponent :: "int \<Rightarrow> int \<Rightarrow> int" where
  "exponent p d =
     (let k = int (bits p) - int (bits d)
      in if (if 0 \<le> k then scale d k \<le> p else d \<le> scale p (- k)) then k else k - 1)"

text \<open>\<open>n / d\<close> rounded to the nearest integer, a tie to the even one.\<close>

definition rdiv :: "int \<Rightarrow> int \<Rightarrow> int" where
  "rdiv n d =
     (let f = n div d; r = 2 * (n mod d)
      in if r < d then f
         else if d < r then f + 1
         else if even f then f else f + 1)"

text \<open>\<open>(p / d) / 2^s\<close> rounded to an integer.\<close>

definition significand :: "int \<Rightarrow> int \<Rightarrow> int \<Rightarrow> int" where
  "significand p d s = (if 0 \<le> s then rdiv p (scale d s) else rdiv (scale p (- s)) d)"

text \<open>The value \<open>m * 2^s\<close> with its sign; from \<open>2^1024\<close> on it is an infinity.\<close>

definition pack :: "bool \<Rightarrow> int \<Rightarrow> int \<Rightarrow> jsnum" where
  "pack negative m s =
     (if 0 \<le> s \<and> scale 1 1024 \<le> scale m s then (if negative then NegInf else PosInf)
      else Fin (of_int (if negative then - m else m) * 2 powi s))"

text \<open>
  A positive \<open>p / d\<close> rounded to 53 significant binary digits; the exponent is not
  taken below \<open>-1022\<close>, which gives the subnormal values and the underflow to 0.
\<close>

definition fl_pos :: "bool \<Rightarrow> int \<Rightarrow> int \<Rightarrow> jsnum" where
  "fl_pos negative p d =
     (let s = max (exponent p d) (- 1022) - 52
      in pack negative (significand p d s) s)"

text \<open>The binary64 value nearest to \<open>q\<close> (round to nearest, ties to even).\<close>

definition fl :: "rat \<Rightarrow> jsnum" where
  "fl q =
     (if q = 0 then Fin 0
      else case quotient_of \<bar>q\<bar> of (p, d) \<Rightarrow> fl_pos (q < 0) p d)"

subsection \<open>Arithmetic and comparison\<close>

fun js_neg :: "jsnum \<Rightarrow> jsnum" where
  "js_neg NaN = NaN"
| "js_neg (Fin a) = Fin (- a)"
| "js_neg PosInf = NegInf"
| "js_neg NegInf = PosInf"

text \<open>\<open>a + b\<close> on numbers.\<close>

fun js_add :: "jsnum \<Rightarrow> jsnum \<Rightarrow> jsnum" where
  "js_add NaN _ = NaN"
| "js_add _ NaN = NaN"
| "js_add (Fin a) (Fin b) = fl (a + b)"
| "js_add (Fin a) PosInf = PosInf"
| "js_add (Fin a) NegInf = NegInf"
| "js_add PosInf NegInf = NaN"
| "js_add PosInf _ = PosInf"
| "js_add NegInf PosInf = NaN"
| "js_add NegInf _ = NegInf"

text \<open>The infinity with the sign of a finite factor; \<open>Infinity * 0\<close> is \<open>NaN\<close>.\<close>

definition inf_times :: "bool \<Rightarrow> rat \<Rightarrow> jsnum" where
  "inf_times positive a =
     (if a = 0 then NaN else if (0 < a) = positive then PosInf else NegInf)"

text \<open>\<open>a * b\<close> on numbers.\<close>

fun js_mul :: "jsnum \<Rightarrow> jsnum \<Rightarrow> jsnum" where
  "js_mul NaN _ = NaN"
| "js_mul _ NaN = NaN"
| "js_mul (Fin a) (Fin b) = fl (a * b)"
| "js_mul (Fin a) PosInf = inf_times True a"
| "js_mul (Fin a) NegInf = inf_times False a"
| "js_mul PosInf (Fin b) = inf_times True b"
| "js_mul NegInf (Fin b) = inf_times False b"
| "js_mul PosInf PosInf = PosInf"
| "js_mul PosInf NegInf = NegInf"
| "js_mul NegInf PosInf = NegInf"
| "js_mul NegInf NegInf = PosInf"

text \<open>\<open>a < b\<close> and \<open>a <= b\<close> on numbers: every comparison with \<open>NaN\<close> is false.\<close>

fun js_lt :: "jsnum \<Rightarrow> jsnum \<Rightarrow> bool" where
  "js_lt NaN _ = False"
| "js_lt _ NaN = False"
| "js_lt (Fin a) (Fin b) = (a < b)"
| "js_lt (Fin a) PosInf = True"
| "js_lt (Fin a) NegInf = False"
| "js_lt PosInf _ = False"
| "js_lt NegInf NegInf = False"
| "js_lt NegInf _ = True"

fun js_le :: "jsnum \<Rightarrow> jsnum \<Rightarrow> bool" where
  "js_le NaN _ = False"
| "js_le _ NaN = False"
| "js_le (Fin a) (Fin b) = (a \<le> b)"
| "js_le (Fin a) PosInf = True"
| "js_le (Fin a) NegInf = False"
| "js_le PosInf PosInf = True"
| "js_le PosInf _ = False"
| "js_le NegInf _ = True"

text \<open>
  The decimal \<open>x.toFixed(2)\<close> prints: \<open>Number.prototype.toFixed(2)\<close> makes \<open>x\<close>
  non-negative, takes the integer \<open>n\<close> with \<open>n / 100\<close> closest to the exact value of
  \<open>x\<close>, the larger one of two, and puts the sign back. (From \<open>10^21\<close> on \<open>toFixed\<close>
  prints the number itself; a binary64 value that large is an integer, for which
  \<open>toFixed2\<close> is the number itself too.)
\<close>

definition toFixed2 :: "rat \<Rightarrow> rat" where
  "toFixed2 x = sgn x * of_int \<lfloor>\<bar>x\<bar> * 100 + 1 / 2\<rfloor> / 100"

text \<open>
  \<open>parseFloat(x.toFixed(2))\<close>: the decimal is read back as the nearest binary64 value;
  \<open>NaN\<close> and the infinities print as themselves and are read back as themselves.
\<close>

fun round2 :: "jsnum \<Rightarrow> jsnum" where
  "round2 (Fin x) = fl (toFixed2 x)"
| "round2 NaN = NaN"
| "round2 PosInf = PosInf"
| "round2 NegInf = NegInf"

subsection \<open>\<open>Number(string)\<close>\<close>

text \<open>
  The \<open>StringToNumber\<close> conversion of ECMAScript over strings in UTF-8: white space is
  trimmed, the empty string is \<open>0\<close>, the text is a signed decimal literal (digits, an
  optional fraction, an optional exponent, or \<open>Infinity\<close>) or an unsigned \<open>0x\<close>, \<open>0o\<close>
  or \<open>0b\<close> integer literal, and anything else is \<open>NaN\<close>. The value of a literal is
  rounded to binary64.

  The white space and line terminator characters, as their bytes: TAB, LF, VT, FF, CR,
  SP, U+00A0, U+1680, U+2000 to U+200A, U+2028, U+2029, U+202F, U+205F, U+3000, U+FEFF.
\<close>

definition white_space :: "nat list list" where
  "white_space =
     [[9], [10], [11], [12], [13], [32], [194, 160], [225, 154, 128],
      [226, 128, 128], [226, 128, 129], [226, 128, 130], [226, 128, 131],
      [226, 128, 132], [226, 128, 133], [226, 128, 134], [226, 128, 135],
      [226, 128, 136], [226, 128, 137], [226, 128, 138], [226, 128, 168],
      [226, 128, 169], [226, 128, 175], [226, 129, 159], [227, 128, 128],
      [239, 187, 191]]"

text \<open>The text after one of the byte sequences \<open>seqs\<close> at its start, if there is one.\<close>

fun after_any :: "nat list list \<Rightarrow> nat list \<Rightarrow> nat list option" where
  "after_any [] bs = None"
| "after_any (w # ws) bs =
     (if take (length w) bs = w then Some (drop (length w) bs) else after_any ws bs)"

text \<open>At most \<open>n\<close> white space characters dropped from the start.\<close>

fun drop_ws :: "nat list list \<Rightarrow> nat \<Rightarrow> nat list \<Rightarrow> nat list" where
  "drop_ws seqs 0 bs = bs"
| "drop_ws seqs (Suc n) bs =
     (case after_any seqs bs of None \<Rightarrow> bs | Some r \<Rightarrow> drop_ws seqs n r)"

definition trim :: "string \<Rightarrow> string" where
  "trim s =
     (let bs = drop_ws white_space (length s) (map of_char s);
          rs = drop_ws (map rev white_space) (length bs) (rev bs)
      in map char_of (rev rs))"

definition digit_of :: "int \<Rightarrow> char \<Rightarrow> int option" where
  "digit_of b c =
     (let n = (of_char c :: int);
          v = (if 48 \<le> n \<and> n \<le> 57 then Some (n - 48)
               else if 97 \<le> n \<and> n \<le> 102 then Some (n - 87)
               else if 65 \<le> n \<and> n \<le> 70 then Some (n - 55)
               else None)
      in case v of None \<Rightarrow> None | Some d \<Rightarrow> if d < b then Some d else None)"

fun digits_val :: "int \<Rightarrow> string \<Rightarrow> int \<Rightarrow> int option" where
  "digits_val b [] acc = Some acc"
| "digits_val b (c # cs) acc =
     (case digit_of b c of None \<Rightarrow> None | Some d \<Rightarrow> digits_val b cs (acc * b + d))"

text \<open>One digit or more in base \<open>b\<close>.\<close>

definition parse_digits :: "int \<Rightarrow> string \<Rightarrow> int option" where
  "parse_digits b s = (if s = [] then None else digits_val b s 0)"

text \<open>The text before the first character satisfying \<open>P\<close>, and the text after it.\<close>

definition split_at :: "(char \<Rightarrow> bool) \<Rightarrow> string \<Rightarrow> string \<times> string option" where
  "split_at P s =
     (case dropWhile (\<lambda>c. \<not> P c) s of
        [] \<Rightarrow> (s, None)
      | _ # r \<Rightarrow> (takeWhile (\<lambda>c. \<not> P c) s, Some r))"

definition parse_exponent :: "string \<Rightarrow> int option" where
  "parse_exponent s =
     (case s of
        [] \<Rightarrow> None
      | c # r \<Rightarrow>
          if c = CHR ''+'' then parse_digits 10 r
          else if c = CHR ''-'' then map_option uminus (parse_digits 10 r)
          else parse_digits 10 s)"

definition parse_mantissa :: "string \<Rightarrow> rat option" where
  "parse_mantissa s =
     (case split_at (\<lambda>c. c = CHR ''.'') s of
        (ip, None) \<Rightarrow> map_option of_int (parse_digits 10 ip)
      | (ip, Some fp) \<Rightarrow>
          if ip = [] \<and> fp = [] then None
          else (case (digits_val 10 ip 0, digits_val 10 fp 0) of
                  (Some i, Some f) \<Rightarrow> Some (of_int i + of_int f / 10 ^ length fp)
                | _ \<Rightarrow> None))"

definition parse_unsigned :: "string \<Rightarrow> jsnum" where
  "parse_unsigned s =
     (if s = ''Infinity'' then PosInf
      else case split_at (\<lambda>c. c = CHR ''e'' \<or> c = CHR ''E'') s of
        (m, None) \<Rightarrow> (case parse_mantissa m of None \<Rightarrow> NaN | Some q \<Rightarrow> fl q)
      | (m, Some e) \<Rightarrow>
          (case (parse_mantissa m, parse_exponent e) of
             (Some q, Some k) \<Rightarrow> fl (q * 10 powi k)
           | _ \<Rightarrow> NaN))"

definition parse_radix :: "int \<Rightarrow> string \<Rightarrow> jsnum" where
  "parse_radix b s = (case parse_digits b s of None \<Rightarrow> NaN | Some n \<Rightarrow> fl (of_int n))"

definition StringToNumber :: "string \<Rightarrow> jsnum" where
  "StringToNumber str =
     (let s = trim str in
      if s = [] then Fin 0
      else if take 2 s = ''0x'' \<or> take 2 s = ''0X'' then parse_radix 16 (drop 2 s)
      else if take 2 s = ''0o'' \<or> take 2 s = ''0O'' then parse_radix 8 (drop 2 s)
      else if take 2 s = ''0b'' \<or> take 2 s = ''0B'' then parse_radix 2 (drop 2 s)
      else if hd s = CHR ''+'' then parse_unsigned (tl s)
      else if hd s = CHR ''-'' then js_neg (parse_unsigned (tl s))
      else parse_unsigned s)"

subsection \<open>Coercions\<close>

text \<open>\<open>Number(v)\<close>.\<close>

fun Number :: "jsval \<Rightarrow> jsnum" where
  "Number JUndefined = NaN"
| "Number JNull = Fin 0"
| "Number (JBool b) = (if b then Fin 1 else Fin 0)"
| "Number (JNum n) = n"
| "Number (JStr s) = StringToNumber s"

text \<open>
  The truth value of \<open>v\<close> in a condition: \<open>!v\<close> holds for \<open>undefined\<close>, \<open>null\<close>,
  \<open>false\<close>, \<open>0\<close>, \<open>NaN\<close> and the empty string.
\<close>

fun truthy :: "jsval \<Rightarrow> bool" where
  "truthy JUndefined = False"
| "truthy JNull = False"
| "truthy (JBool b) = b"
| "truthy (JNum n) = (n \<noteq> NaN \<and> n \<noteq> Fin 0)"
| "truthy (JStr s) = (s \<noteq> [])"

text \<open>\<open>v === undefined || v === null\<close>.\<close>

definition ausente :: "jsval \<Rightarrow> bool" where
  "ausente v = (v = JUndefined \<or> v = JNull)"

section \<open>The sale-posting transaction\<close>

text \<open>
  \<open>crearDetalleVenta\<close> (\<open>references/transactions.md\<close>, "Complex Transaction: Sale with
  Stock Movement"). A line of \<open>detalleVentaData\<close> is an object whose fields are
  JavaScript values; a field that is not set reads as \<open>undefined\<close>.
\<close>

record item =
  producto_id :: jsval
  cantidad :: jsval
  almacen_id :: jsval
  precio_unitario :: jsval
  sub_total :: jsval
  venta_id :: jsval
  movimiento_id :: jsval

text \<open>A row of \<open>Producto\<close> (\<open>p.id\<close>, \<open>producto.precio_minorista\<close>) and of \<open>Venta\<close>
  (\<open>venta.id\<close>, \<open>venta.total\<close>); the columns the function does not read are left out.\<close>

record producto =
  p_id :: jsval
  precio_minorista :: jsval

record venta =
  v_id :: jsval
  v_total :: jsval

text \<open>
  The argument of \<open>crearMovimiento\<close>. The template literal
  \<open>`Salida por venta ID: ${item.venta_id}`\<close> is kept as its fixed text and the
  interpolated value.
\<close>

record movimiento_data =
  tipo :: string
  mov_producto_id :: jsval
  mov_almacen_id :: jsval
  mov_cantidad :: jsval
  mov_precio_unitario :: jsval
  descripcion :: "string \<times> jsval"

record movimiento = movimiento_data +
  m_id :: jsval

text \<open>
  Everything the function throws. The first six are its own \<open>new Error(...)\<close>; the
  messages \<open>`Producto ${producto_id} no encontrado`\<close> and \<open>`Venta ${ventaId} no encontrada`\<close>
  carry the interpolated value. \<open>TypeError\<close> is the failure of
  \<open>detalleVentaData[0].venta_id\<close> on an empty array, and \<open>StoreError\<close> is anything a
  store operation throws.
\<close>

datatype error =
    ArrayVacio
  | ProductoIdObligatorio
  | CantidadInvalida
  | ProductoNoEncontrado jsval
  | VentaIdObligatorio
  | VentaNoEncontrada jsval
  | TypeError
  | StoreError string

text \<open>
  The store operations the function awaits, over any state \<open>'db\<close> of the store. Each
  one may throw, and one that throws leaves the state as it found it.

  \<open>sequelize.transaction()\<close> gives the state the transaction starts in. Inside the
  transaction, on its state: \<open>Producto.findAll({ where: { id: productoIds } })\<close>,
  \<open>crearMovimiento(data, transaction)\<close>, \<open>DetalleVenta.bulkCreate(detalleVentaData)\<close>,
  \<open>Venta.findOne({ where: { id: ventaId }, lock: UPDATE })\<close> and \<open>venta.save()\<close>.
  \<open>transaction.commit()\<close> gives the store the state of the transaction becomes.
  \<open>transaction.rollback()\<close> gives the store that is left; the transaction object is
  represented by the store it was opened on, the first argument, and the second is the
  state the transaction has reached.
\<close>

record 'db sequelize =
  transaction :: "'db \<Rightarrow> error + 'db"
  commit :: "'db \<Rightarrow> error + 'db"
  rollback :: "'db \<Rightarrow> 'db \<Rightarrow> error + 'db"
  Producto_findAll :: "jsval list \<Rightarrow> 'db \<Rightarrow> error + producto list"
  crearMovimiento :: "movimiento_data \<Rightarrow> 'db \<Rightarrow> error + movimiento \<times> 'db"
  DetalleVenta_bulkCreate :: "item list \<Rightarrow> 'db \<Rightarrow> error + item list \<times> 'db"
  Venta_findOne :: "jsval \<Rightarrow> 'db \<Rightarrow> error + venta option"
  venta_save :: "venta \<Rightarrow> 'db \<Rightarrow> error + 'db"

text \<open>\<open>[...new Set(xs)]\<close>: the first occurrence of every value, in order.\<close>

fun uniq :: "'a list \<Rightarrow> 'a list" where
  "uniq [] = []"
| "uniq (x # xs) = x # uniq (filter (\<lambda>y. y \<noteq> x) xs)"

text \<open>\<open>new Map(productos.map(p => [p.id, p]))\<close>: a later entry replaces an earlier one.\<close>

definition new_Map :: "producto list \<Rightarrow> (jsval \<rightharpoonup> producto)" where
  "new_Map ps = map_of (rev (map (\<lambda>p. (p_id p, p)) ps))"

text \<open>The batch load of the products, lines 148-154.\<close>

definition cargar_productos ::
  "'db sequelize \<Rightarrow> 'db \<Rightarrow> item list \<Rightarrow> error + (jsval \<rightharpoonup> producto)" where
  "cargar_productos ops tx detalleVentaData =
     (let productoIds = uniq (map producto_id detalleVentaData) in
      case Producto_findAll ops productoIds tx of
        Inl e \<Rightarrow> Inl e
      | Inr productos \<Rightarrow> Inr (new_Map productos))"

text \<open>The validation of one line, lines 161-162.\<close>

definition validar :: "item \<Rightarrow> error option" where
  "validar it =
     (if \<not> truthy (producto_id it) then Some ProductoIdObligatorio
      else if \<not> truthy (cantidad it) \<or> js_le (Number (cantidad it)) (Fin 0)
        then Some CantidadInvalida
      else None)"

text \<open>The price and the subtotal the loop writes into the line, lines 167-179.\<close>

definition resolver_precio :: "item \<Rightarrow> producto \<Rightarrow> jsnum" where
  "resolver_precio it p =
     (if ausente (precio_unitario it) then Number (precio_minorista p)
      else Number (precio_unitario it))"

definition calcular_sub_total :: "item \<Rightarrow> jsnum \<Rightarrow> jsnum" where
  "calcular_sub_total it precio =
     (if ausente (sub_total it) then round2 (js_mul precio (Number (cantidad it)))
      else round2 (Number (sub_total it)))"

definition completar :: "item \<Rightarrow> producto \<Rightarrow> item" where
  "completar it p =
     (let precio = resolver_precio it p in
      it\<lparr>precio_unitario := JNum precio,
         sub_total := JNum (calcular_sub_total it precio)\<rparr>)"

text \<open>The movement the loop asks for, lines 184-191.\<close>

definition salida :: "item \<Rightarrow> movimiento_data" where
  "salida it =
     \<lparr>tipo = ''salida'',
      mov_producto_id = producto_id it,
      mov_almacen_id = almacen_id it,
      mov_cantidad = cantidad it,
      mov_precio_unitario = precio_unitario it,
      descripcion = (''Salida por venta ID: '', venta_id it)\<rparr>"

text \<open>
  The loop \<open>for (const item of detalleVentaData)\<close>, lines 157-195, from a running
  \<open>total_subtotales\<close> and a state of the transaction. It returns the lines as the loop
  leaves them and the final \<open>total_subtotales\<close>, or the error thrown; and in both cases
  the state of the transaction at that point.
\<close>

fun procesar ::
  "'db sequelize \<Rightarrow> (jsval \<rightharpoonup> producto) \<Rightarrow> item list \<Rightarrow> jsnum \<Rightarrow> 'db
    \<Rightarrow> (error + item list \<times> jsnum) \<times> 'db" where
  "procesar ops productoMap [] total_subtotales tx = (Inr ([], total_subtotales), tx)"
| "procesar ops productoMap (it # rest) total_subtotales tx =
     (case validar it of
        Some e \<Rightarrow> (Inl e, tx)
      | None \<Rightarrow>
          (case productoMap (producto_id it) of
             None \<Rightarrow> (Inl (ProductoNoEncontrado (producto_id it)), tx)
           | Some p \<Rightarrow>
               (let it1 = completar it p;
                    total1 = round2 (js_add total_subtotales (Number (sub_total it1)))
                in case crearMovimiento ops (salida it1) tx of
                     Inl e \<Rightarrow> (Inl e, tx)
                   | Inr (mov, tx1) \<Rightarrow>
                       (case procesar ops productoMap rest total1 tx1 of
                          (Inl e, tx2) \<Rightarrow> (Inl e, tx2)
                        | (Inr (hechas, total2), tx2) \<Rightarrow>
                            (Inr (it1\<lparr>movimiento_id := m_id mov\<rparr> # hechas, total2), tx2)))))"

text \<open>\<open>Number(venta.total || 0)\<close>, line 214.\<close>

definition currentTotal :: "venta \<Rightarrow> jsnum" where
  "currentTotal v = Number (if truthy (v_total v) then v_total v else JNum (Fin 0))"

text \<open>The business rule of lines 216-220: the total is written when it is 0 or less
  than the sum of the subtotals.\<close>

definition reconciliar :: "'db sequelize \<Rightarrow> venta \<Rightarrow> jsnum \<Rightarrow> 'db \<Rightarrow> error + 'db" where
  "reconciliar ops v total_subtotales tx =
     (if currentTotal v = Fin 0 \<or> js_lt (currentTotal v) total_subtotales
      then venta_save ops (v\<lparr>v_total := JNum total_subtotales\<rparr>) tx
      else Inr tx)"

text \<open>Lines 203-220: the parent sale is read with a lock and its total reconciled.\<close>

definition actualizar_venta ::
  "'db sequelize \<Rightarrow> item list \<Rightarrow> jsnum \<Rightarrow> 'db \<Rightarrow> error + 'db" where
  "actualizar_venta ops detalleVentaData total_subtotales tx =
     (case detalleVentaData of
        [] \<Rightarrow> Inl TypeError
      | primero # _ \<Rightarrow>
          (let ventaId = venta_id primero in
           if \<not> truthy ventaId then Inl VentaIdObligatorio
           else case Venta_findOne ops ventaId tx of
                  Inl e \<Rightarrow> Inl e
                | Inr None \<Rightarrow> Inl (VentaNoEncontrada ventaId)
                | Inr (Some v) \<Rightarrow> reconciliar ops v total_subtotales tx))"

text \<open>
  The body of the \<open>try\<close> block, lines 146-220, up to the commit: the value returned
  (\<open>detalleVentaCreado\<close>) or the error thrown, and the state of the transaction where
  the block was left.
\<close>

definition cuerpo ::
  "'db sequelize \<Rightarrow> 'db \<Rightarrow> item list \<Rightarrow> (error + item list) \<times> 'db" where
  "cuerpo ops tx detalleVentaData =
     (case cargar_productos ops tx detalleVentaData of
        Inl e \<Rightarrow> (Inl e, tx)
      | Inr productoMap \<Rightarrow>
          (case procesar ops productoMap detalleVentaData (Fin 0) tx of
             (Inl e, tx1) \<Rightarrow> (Inl e, tx1)
           | (Inr (lineas, total_subtotales), tx1) \<Rightarrow>
               (case DetalleVenta_bulkCreate ops lineas tx1 of
                  Inl e \<Rightarrow> (Inl e, tx1)
                | Inr (detalleVentaCreado, tx2) \<Rightarrow>
                    (case actualizar_venta ops lineas total_subtotales tx2 of
                       Inl e \<Rightarrow> (Inl e, tx2)
                     | Inr tx3 \<Rightarrow> (Inr detalleVentaCreado, tx3)))))"

text \<open>
  The \<open>catch\<close> block, lines 224-228, entered with the error \<open>e\<close> when the
  transaction, opened on \<open>store\<close>, has reached the state \<open>tx\<close>:
  \<open>await transaction.rollback()\<close> comes first, and only when it returns is \<open>e\<close> thrown
  again; when the rollback itself throws, its error is the one that leaves the function.
  The \<open>console.error\<close> is not modelled.
\<close>

definition capturar ::
  "'db sequelize \<Rightarrow> 'db \<Rightarrow> 'db \<Rightarrow> error \<Rightarrow> (error + item list) \<times> 'db" where
  "capturar ops store tx e =
     (case rollback ops store tx of
        Inl e' \<Rightarrow> (Inl e', tx)
      | Inr store' \<Rightarrow> (Inl e, store'))"

text \<open>
  \<open>crearDetalleVenta\<close>. The argument is an array (the parameter is typed \<open>any[]\<close>;
  a value that is not an array is refused by the same input check as the empty one).
  The input check and \<open>sequelize.transaction()\<close> come before the \<open>try\<close>: what they throw
  leaves the function directly. \<open>transaction.commit()\<close> is the last statement inside the
  \<open>try\<close>: what it throws is caught like an error of the body. The result is the value
  returned or the error thrown, and the store after the call.
\<close>

definition crearDetalleVenta ::
  "'db sequelize \<Rightarrow> 'db \<Rightarrow> item list \<Rightarrow> (error + item list) \<times> 'db" where
  "crearDetalleVenta ops store detalleVentaData =
     (if detalleVentaData = [] then (Inl ArrayVacio, store)
      else case transaction ops store of
             Inl e \<Rightarrow> (Inl e, store)
           | Inr tx0 \<Rightarrow>
               (case cuerpo ops tx0 detalleVentaData of
                  (Inl e, tx) \<Rightarrow> capturar ops store tx e
                | (Inr detalleVentaCreado, tx) \<Rightarrow>
                    (case commit ops tx of
                       Inl e \<Rightarrow> capturar ops store tx e
                     | Inr store' \<Rightarrow> (Inr detalleVentaCreado, store'))))"

subsection \<open>An in-memory store\<close>

text \<open>
  The tables the transaction touches. Ids are compared as JavaScript values (the
  coercions of the SQL engine are not modelled). A transaction works on a copy of the
  tables: it starts from the store as it is, its commit makes the copy the store, and
  its rollback leaves the store it was opened on.
\<close>

record db =
  productos :: "producto list"
  ventas :: "venta list"
  movimientos :: "movimiento list"
  detalle_ventas :: "item list"

text \<open>
  Modelled from the spec: \<open>crearMovimiento\<close> is called in \<open>references/transactions.md\<close>
  but defined nowhere in the repository. By section 4.5, step 4e of the specification
  it creates one InventoryMovement with the fields it is given and returns it with its
  id; the id is the next one of an auto-increment key over an append-only table.
\<close>

definition mem_crearMovimiento :: "movimiento_data \<Rightarrow> db \<Rightarrow> error + movimiento \<times> db" where
  "mem_crearMovimiento datos d =
     (let mov = movimiento_data.extend datos
                  (movimiento.fields (JNum (Fin (of_nat (length (movimientos d)) + 1))))
      in Inr (mov, d\<lparr>movimientos := movimientos d @ [mov]\<rparr>))"

text \<open>\<open>venta.save()\<close> writes the row with the id of the instance.\<close>

definition mem_venta_save :: "venta \<Rightarrow> db \<Rightarrow> error + db" where
  "mem_venta_save v d =
     Inr (d\<lparr>ventas := map (\<lambda>w. if v_id w = v_id v then v else w) (ventas d)\<rparr>)"

definition mem_store :: "db sequelize" where
  "mem_store =
     \<lparr>transaction = Inr,
      commit = Inr,
      rollback = (\<lambda>store tx. Inr store),
      Producto_findAll = (\<lambda>ids d. Inr (filter (\<lambda>p. p_id p \<in> set ids) (productos d))),
      crearMovimiento = mem_crearMovimiento,
      DetalleVenta_bulkCreate =
        (\<lambda>lineas d. Inr (lineas, d\<lparr>detalle_ventas := detalle_ventas d @ lineas\<rparr>)),
      Venta_findOne = (\<lambda>ventaId d. Inr (find (\<lambda>v. v_id v = ventaId) (ventas d))),
      venta_save = mem_venta_save\<rparr>"

text \<open>A line as a caller sends it: the fields it does not set are \<open>undefined\<close>.\<close>

definition linea :: "jsval \<Rightarrow> jsval \<Rightarrow> jsval \<Rightarrow> item" where
  "linea pid cant vid =
     \<lparr>producto_id = pid, cantidad = cant, almacen_id = JNum (Fin 1),
      precio_unitario = JUndefined, sub_total = JUndefined, venta_id = vid,
      movimiento_id = JUndefined\<rparr>"

text \<open>A small store: two products, at 10.00 and 5.00, and the sales 7 (total 0) and 8
  (total 100.00); decimal columns are read as strings.\<close>

definition tienda :: db where
  "tienda =
     \<lparr>productos =
        [\<lparr>p_id = JNum (Fin 1), precio_minorista = JStr ''10.00''\<rparr>,
         \<lparr>p_id = JNum (Fin 2), precio_minorista = JStr ''5.00''\<rparr>],
      ventas =
        [\<lparr>v_id = JNum (Fin 7), v_total = JStr ''0.00''\<rparr>,
         \<lparr>v_id = JNum (Fin 8), v_total = JStr ''100.00''\<rparr>],
      movimientos = [],
      detalle_ventas = []\<rparr>"

text \<open>Two lines, 2 at 10.00 and 1 at 5.00, posted to the sale 7 and to the sale 8.\<close>

definition lote_7 :: "item list" where
  "lote_7 = [linea (JNum (Fin 1)) (JNum (Fin 2)) (JNum (Fin 7)),
             linea (JNum (Fin 2)) (JNum (Fin 1)) (JNum (Fin 7))]"

definition lote_8 :: "item list" where
  "lote_8 = [linea (JNum (Fin 1)) (JNum (Fin 2)) (JNum (Fin 8)),
             linea (JNum (Fin 2)) (JNum (Fin 1)) (JNum (Fin 8))]"

text \<open>
  The sum of the subtotals of a list of lines, as
  \<open>lines.reduce((a, l) => a + Number(l.sub_total), 0)\<close> computes it.
\<close>

definition suma :: "item list \<Rightarrow> jsnum" where
  "suma ls = foldl js_add (Fin 0) (map (\<lambda>l. Number (sub_total l)) ls)"

text \<open>
  Batches that fail or should fail: a second line with quantity 0, a second line whose
  product 99 is not in the store, a line whose quantity is the string \<open>abc\<close>; and a
  store whose \<open>venta.save()\<close> throws.
\<close>

definition lote_invalido :: "item list" where
  "lote_invalido = [linea (JNum (Fin 1)) (JNum (Fin 2)) (JNum (Fin 7)),
                    linea (JNum (Fin 2)) (JNum (Fin 0)) (JNum (Fin 7))]"

definition lote_desconocido :: "item list" where
  "lote_desconocido = [linea (JNum (Fin 1)) (JNum (Fin 2)) (JNum (Fin 7)),
                       linea (JNum (Fin 99)) (JNum (Fin 1)) (JNum (Fin 7))]"

definition lote_abc :: "item list" where
  "lote_abc = [linea (JNum (Fin 1)) (JStr ''abc'') (JNum (Fin 7))]"

definition sin_save :: "db sequelize" where
  "sin_save = mem_store\<lparr>venta_save := (\<lambda>v d. Inl (StoreError ''lock wait timeout''))\<rparr>"

text \<open>A batch whose first line brings its own price, 12, and its own subtotal, 9.999.\<close>

definition lote_precios :: "item list" where
  "lote_precios =
     [(linea (JNum (Fin 1)) (JNum (Fin 2)) (JNum (Fin 7)))
        \<lparr>precio_unitario := JNum (Fin 12), sub_total := JNum (Fin (9999 / 1000))\<rparr>,
      linea (JNum (Fin 2)) (JNum (Fin 3)) (JNum (Fin 7))]"

section \<open>Token verification and the role guard\<close>

text \<open>
  \<open>references/transactions.md\<close>, "JWT Configuration", "Authentication Middleware" and
  "Role-Based Authorization Middleware". \<open>JWTPayload\<close> is the interface of
  \<open>src/config/jwt.ts\<close> (its field \<open>id\<close> is \<open>usuario_id\<close> here); \<open>roles\<close> is optional.
\<close>

record JWTPayload =
  usuario_id :: nat
  username :: string
  rol :: string
  roles :: "string list option"

text \<open>
  A value that is thrown: an \<open>Error\<close> object, with its class and its message, or a
  value that is not an \<open>Error\<close>. \<open>TokenExpiredError\<close> and \<open>NotBeforeError\<close> are
  subclasses of \<open>JsonWebTokenError\<close> in the package \<open>jsonwebtoken\<close>, and every class is
  a subclass of \<open>Error\<close>, here \<open>ErrorBase\<close>.
\<close>

datatype clase = ErrorBase | JsonWebTokenError | TokenExpiredError | NotBeforeError

datatype lanzado = Error clase string | NoError

text \<open>\<open>error instanceof k\<close>.\<close>

fun instanceof :: "lanzado \<Rightarrow> clase \<Rightarrow> bool" where
  "instanceof NoError k = False"
| "instanceof (Error c m) k =
     (c = k \<or> k = ErrorBase
      \<or> (k = JsonWebTokenError \<and> (c = TokenExpiredError \<or> c = NotBeforeError)))"

text \<open>
  \<open>verificarToken\<close>. \<open>jwt.verify(token, SECRET_KEY)\<close> belongs to \<open>jsonwebtoken\<close>: what
  it does with a token is a parameter, a function from the token to the decoded payload
  or to what it throws. It throws \<open>TokenExpiredError\<close> for a token past its expiry and
  \<open>JsonWebTokenError\<close> for a malformed token or a wrong signature.
\<close>

definition verificarToken ::
  "(string \<Rightarrow> lanzado + JWTPayload) \<Rightarrow> string \<Rightarrow> lanzado + JWTPayload" where
  "verificarToken jwt_verify token =
     (case jwt_verify token of
        Inr payload \<Rightarrow> Inr payload
      | Inl error \<Rightarrow>
          if instanceof error TokenExpiredError then Inl (Error ErrorBase ''TOKEN_EXPIRED'')
          else if instanceof error JsonWebTokenError
            then Inl (Error ErrorBase ''TOKEN_INVALID'')
          else Inl error)"

text \<open>
  The request, as far as the two middlewares read it: the \<open>authorization\<close> header,
  \<open>req.usuario\<close>, \<open>req.method\<close> (\<open>req_method\<close>), \<open>req.route?.path\<close> and \<open>req.path\<close>.
\<close>

record AuthRequest =
  authorization :: "string option"
  usuario :: "JWTPayload option"
  req_method :: string
  route_path :: "string option"
  path :: string

text \<open>
  The JSON body of an error response with its HTTP status. The texts for the reader
  (\<open>message\<close>, \<open>error\<close>) are left out; \<open>code\<close> and \<open>detalles\<close> are what a client
  branches on.
\<close>

record detalles_permiso =
  rolesRequeridos :: "string list"
  det_usuario :: string
  operacion :: string

record respuesta =
  http_status :: nat
  status :: string
  code :: string
  detalles :: "detalles_permiso option"

datatype resultado = Next AuthRequest | Respuesta respuesta

definition rechazo :: "nat \<Rightarrow> string \<Rightarrow> respuesta" where
  "rechazo st c = \<lparr>http_status = st, status = ''error'', code = c, detalles = None\<rparr>"

text \<open>\<open>s.split(sep)\<close> for a separator of one character.\<close>

fun js_split :: "char \<Rightarrow> string \<Rightarrow> string list" where
  "js_split sep [] = [[]]"
| "js_split sep (c # cs) =
     (if c = sep then [] # js_split sep cs
      else case js_split sep cs of
             w # ws \<Rightarrow> (c # w) # ws
           | [] \<Rightarrow> [[c]])"

text \<open>
  \<open>authHeader && authHeader.split(' ')[1]\<close>: \<open>None\<close> is \<open>undefined\<close>. The value is
  falsy when it is \<open>undefined\<close> or the empty string.
\<close>

definition extraer_token :: "string option \<Rightarrow> string option" where
  "extraer_token authHeader =
     (case authHeader of
        None \<Rightarrow> None
      | Some h \<Rightarrow>
          if h = [] then Some []
          else (case js_split CHR '' '' h of
                  _ # t # _ \<Rightarrow> Some t
                | _ \<Rightarrow> None))"

definition autenticarToken ::
  "(string \<Rightarrow> lanzado + JWTPayload) \<Rightarrow> AuthRequest \<Rightarrow> resultado" where
  "autenticarToken jwt_verify req =
     (case extraer_token (authorization req) of
        None \<Rightarrow> Respuesta (rechazo 401 ''TOKEN_NOT_PROVIDED'')
      | Some token \<Rightarrow>
          if token = [] then Respuesta (rechazo 401 ''TOKEN_NOT_PROVIDED'')
          else (case verificarToken jwt_verify token of
                  Inr payload \<Rightarrow> Next (req\<lparr>usuario := Some payload\<rparr>)
                | Inl error \<Rightarrow>
                    Respuesta (rechazo 403
                      (if instanceof error ErrorBase
                       then (case error of Error c m \<Rightarrow> m | NoError \<Rightarrow> [])
                       else ''TOKEN_INVALID''))))"

text \<open>\<open>s.includes(sub)\<close>.\<close>

fun js_includes :: "string \<Rightarrow> string \<Rightarrow> bool" where
  "js_includes [] sub = (sub = [])"
| "js_includes (c # cs) sub = (take (length sub) (c # cs) = sub \<or> js_includes cs sub)"

text \<open>\<open>obtenerAccionDeRuta\<close>; the last text ends in an accented letter, two bytes
  in UTF-8.\<close>

definition obtenerAccionDeRuta :: "AuthRequest \<Rightarrow> string" where
  "obtenerAccionDeRuta req =
     (let metodo = req_method req;
          ruta = (case route_path req of
                    None \<Rightarrow> path req
                  | Some r \<Rightarrow> if r = [] then path req else r);
          usuarios = js_includes ruta ''/usuarios''
      in if usuarios \<and> metodo = ''GET'' \<and> \<not> js_includes ruta '':id'' then ''Listar usuarios''
         else if usuarios \<and> metodo = ''GET'' \<and> js_includes ruta '':id''
           then ''Ver detalles de usuario''
         else if usuarios \<and> metodo = ''POST'' then ''Crear nuevos usuarios''
         else if usuarios \<and> metodo = ''PUT'' then ''Actualizar usuarios''
         else if usuarios \<and> metodo = ''DELETE'' then ''Eliminar usuarios''
         else if usuarios \<and> metodo = ''PATCH'' \<and> js_includes ruta ''habilitar''
           then ''Habilitar/inhabilitar usuarios''
         else if metodo = ''GET'' then ''Ver este recurso''
         else if metodo = ''POST'' then ''Crear este recurso''
         else if metodo = ''PUT'' then ''Actualizar este recurso''
         else if metodo = ''DELETE'' then ''Eliminar este recurso''
         else if metodo = ''PATCH'' then ''Modificar este recurso''
         else ''Esta operaci'' @ [CHR 0xC3, CHR 0xB3] @ ''n'')"

text \<open>
  Lines 684-692 of \<open>verificarRol\<close>: the roles of the request's user. When
  \<open>req.usuario.roles\<close> is set nothing is read; otherwise
  \<open>UsuarioRol.findAll({ where: { usuario_id } })\<close> is awaited, here \<open>consultar\<close>, which
  gives the role names or throws, and the names are stored in the request. The second
  component lists the queries sent to the store.
\<close>

definition cargar_roles ::
  "(nat \<Rightarrow> 'e + string list) \<Rightarrow> JWTPayload \<Rightarrow> ('e + JWTPayload) \<times> nat list" where
  "cargar_roles consultar u =
     (case roles u of
        Some rs \<Rightarrow> (Inr u, [])
      | None \<Rightarrow>
          (case consultar (usuario_id u) of
             Inl e \<Rightarrow> (Inl e, [usuario_id u])
           | Inr rolesAsignados \<Rightarrow> (Inr (u\<lparr>roles := Some rolesAsignados\<rparr>), [usuario_id u])))"

text \<open>\<open>(req.usuario.roles || []).some((rol) => rolesPermitidos.includes(rol))\<close>.\<close>

definition tienePermiso :: "string list \<Rightarrow> JWTPayload \<Rightarrow> bool" where
  "tienePermiso rolesPermitidos u =
     list_ex (\<lambda>r. r \<in> set rolesPermitidos) (case roles u of None \<Rightarrow> [] | Some rs \<Rightarrow> rs)"

definition permisos_insuficientes :: "string list \<Rightarrow> AuthRequest \<Rightarrow> JWTPayload \<Rightarrow> respuesta" where
  "permisos_insuficientes rolesPermitidos req u =
     \<lparr>http_status = 403, status = ''error'', code = ''INSUFFICIENT_PERMISSIONS'',
      detalles = Some \<lparr>rolesRequeridos = rolesPermitidos, det_usuario = username u,
                       operacion = obtenerAccionDeRuta req\<rparr>\<rparr>"

text \<open>
  \<open>verificarRol(...rolesPermitidos)\<close>, the guard it returns applied to a request: the
  outcome and the queries sent to the store.
\<close>

definition verificarRol ::
  "string list \<Rightarrow> (nat \<Rightarrow> 'e + string list) \<Rightarrow> AuthRequest \<Rightarrow> resultado \<times> nat list" where
  "verificarRol rolesPermitidos consultar req =
     (case usuario req of
        None \<Rightarrow> (Respuesta (rechazo 401 ''AUTHENTICATION_REQUIRED''), [])
      | Some u \<Rightarrow>
          (case cargar_roles consultar u of
             (Inl e, consultas) \<Rightarrow>
               (Respuesta (rechazo 500 ''ROLE_VERIFICATION_ERROR''), consultas)
           | (Inr u1, consultas) \<Rightarrow>
               (if tienePermiso rolesPermitidos u1
                then Next (req\<lparr>usuario := Some u1\<rparr>)
                else Respuesta (permisos_insuficientes rolesPermitidos req u1),
                consultas)))"

text \<open>
  The payload \<open>login\<close> signs, lines 829-838: \<open>rol\<close> is \<open>roles[0] || "usuario"\<close> and
  \<open>roles\<close> is the whole list read from the store at login.
\<close>

definition login_payload :: "nat \<Rightarrow> string \<Rightarrow> string list \<Rightarrow> JWTPayload" where
  "login_payload uid nombre rs =
     \<lparr>usuario_id = uid, username = nombre,
      rol = (case rs of [] \<Rightarrow> ''usuario'' | r # _ \<Rightarrow> if r = [] then ''usuario'' else r),
      roles = Some rs\<rparr>"

text \<open>The table \<open>usuarios_roles\<close> joined with the role names, and the query over it.\<close>

definition consultar_tabla :: "(nat \<times> string) list \<Rightarrow> nat \<Rightarrow> unit + string list" where
  "consultar_tabla tabla uid = Inr (map snd (filter (\<lambda>ur. fst ur = uid) tabla))"

text \<open>A verifier for three sample tokens, and a request carrying a token.\<close>

definition jwt_demo :: "string \<Rightarrow> lanzado + JWTPayload" where
  "jwt_demo token =
     (if token = ''vigente'' then Inr (login_payload 3 ''ana'' [''admin'', ''vendedor''])
      else if token = ''vencido'' then Inl (Error TokenExpiredError ''jwt expired'')
      else Inl (Error JsonWebTokenError ''jwt malformed''))"

definition peticion :: "string option \<Rightarrow> AuthRequest" where
  "peticion h =
     \<lparr>authorization = h, usuario = None, req_method = ''GET'', route_path = Some ''/'',
      path = ''/api/usuarios''\<rparr>"

text \<open>An authenticated request: \<open>req.usuario\<close> is set.\<close>

definition con_usuario :: "JWTPayload \<Rightarrow> AuthRequest" where
  "con_usuario u = (peticion None)\<lparr>usuario := Some u\<rparr>"

section \<open>The loop\<close>

lemma procesar_Cons_InrE:
  assumes "procesar ops pm (it # rest) t tx = (Inr (ls, T), tx')"
  obtains p mov tx1 hechas where
    "validar it = None" and "pm (producto_id it) = Some p"
    and "crearMovimiento ops (salida (completar it p)) tx = Inr (mov, tx1)"
    and "procesar ops pm rest (round2 (js_add t (Number (sub_total (completar it p))))) tx1
           = (Inr (hechas, T), tx')"
    and "ls = (completar it p)\<lparr>movimiento_id := m_id mov\<rparr> # hechas"
  using assms by (auto simp: Let_def split: option.splits sum.splits prod.splits)

lemma procesar_append:
  assumes "procesar ops pm pre t tx = (Inr (hechas, t1), tx1)"
  shows "procesar ops pm (pre @ rest) t tx =
           (case procesar ops pm rest t1 tx1 of
              (Inl e, tx2) \<Rightarrow> (Inl e, tx2)
            | (Inr (mas, t2), tx2) \<Rightarrow> (Inr (hechas @ mas, t2), tx2))"
  using assms
proof (induction pre arbitrary: t tx hechas)
  case Nil
  then show ?case by (auto split: prod.splits sum.splits)
next
  case (Cons it pre)
  from Cons.prems obtain p mov tx0 hs where
    v: "validar it = None" and p: "pm (producto_id it) = Some p"
    and m: "crearMovimiento ops (salida (completar it p)) tx = Inr (mov, tx0)"
    and r: "procesar ops pm pre (round2 (js_add t (Number (sub_total (completar it p))))) tx0
          = (Inr (hs, t1), tx1)"
    and h: "hechas = (completar it p)\<lparr>movimiento_id := m_id mov\<rparr> # hs"
    by (rule procesar_Cons_InrE)
  show ?case
    by (simp add: v p m Let_def Cons.IH[OF r] h split: prod.splits sum.splits)
qed

text \<open>The fields of the caller that the loop keeps.\<close>

lemma completar_keeps:
  "producto_id (completar it p) = producto_id it"
  "cantidad (completar it p) = cantidad it"
  "almacen_id (completar it p) = almacen_id it"
  "venta_id (completar it p) = venta_id it"
  by (simp_all add: completar_def Let_def)

lemma procesar_lineas:
  assumes "procesar ops pm items t tx = (Inr (ls, T), tx')"
  shows "list_all2 (\<lambda>it l. \<exists>p mid. pm (producto_id it) = Some p \<and> validar it = None
            \<and> l = (completar it p)\<lparr>movimiento_id := mid\<rparr>) items ls"
  using assms
proof (induction items arbitrary: t tx ls)
  case Nil
  then show ?case by simp
next
  case (Cons it rest)
  from Cons.prems show ?case
    by (rule procesar_Cons_InrE) (use Cons.IH in blast)
qed

subsection \<open>The loop over the in-memory store\<close>

lemma mem_ops [simp]:
  "transaction mem_store d = Inr d"
  "commit mem_store d = Inr d"
  "rollback mem_store d d1 = Inr d"
  "Producto_findAll mem_store ids d = Inr (filter (\<lambda>p. p_id p \<in> set ids) (productos d))"
  "crearMovimiento mem_store = mem_crearMovimiento"
  "DetalleVenta_bulkCreate mem_store ls d = Inr (ls, d\<lparr>detalle_ventas := detalle_ventas d @ ls\<rparr>)"
  "Venta_findOne mem_store vid d = Inr (find (\<lambda>v. v_id v = vid) (ventas d))"
  "venta_save mem_store = mem_venta_save"
  by (simp_all add: mem_store_def)

lemma mem_crearMovimiento_Inr:
  assumes "mem_crearMovimiento datos d = Inr (mov, d1)"
  shows "m_id mov = JNum (Fin (of_nat (length (movimientos d)) + 1))"
    and "d1 = d\<lparr>movimientos := movimientos d @ [mov]\<rparr>"
  using assms by (auto simp: mem_crearMovimiento_def Let_def movimiento_data.defs movimiento.defs)

lemma procesar_mem_frame:
  assumes "procesar mem_store pm items t d = (r, d1)"
  shows "\<exists>ms. d1 = d\<lparr>movimientos := movimientos d @ ms\<rparr> \<and> length ms \<le> length items"
  using assms
proof (induction items arbitrary: t d r d1)
  case Nil
  then show ?case by simp
next
  case (Cons it rest)
  have same: "\<exists>ms. d = d\<lparr>movimientos := movimientos d @ ms\<rparr> \<and> length ms \<le> length (it # rest)"
    by (rule exI[of _ "[]"]) simp
  show ?case
  proof (cases "validar it")
    case (Some e)
    with Cons.prems same show ?thesis by auto
  next
    case None
    show ?thesis
    proof (cases "pm (producto_id it)")
      case N: None
      with None Cons.prems same show ?thesis by auto
    next
      case (Some p)
      obtain mov d0 where m: "mem_crearMovimiento (salida (completar it p)) d = Inr (mov, d0)"
        by (simp add: mem_crearMovimiento_def Let_def)
      note d0 = mem_crearMovimiento_Inr(2)[OF m]
      obtain r' d' where rr: "procesar mem_store pm rest (round2 (js_add t (Number (sub_total (completar it p))))) d0 = (r', d')"
        by (cases "procesar mem_store pm rest (round2 (js_add t (Number (sub_total (completar it p))))) d0")
      from Cons.IH[OF rr] obtain ms where ms: "d' = d0\<lparr>movimientos := movimientos d0 @ ms\<rparr>" "length ms \<le> length rest"
        by blast
      have "d1 = d'" using Cons.prems None Some m rr
        by (auto simp: Let_def split: sum.splits)
      then have "d1 = d\<lparr>movimientos := movimientos d @ (mov # ms)\<rparr>"
        using ms d0 by simp
      then show ?thesis using ms(2)
        by (intro exI[of _ "mov # ms"]) simp
    qed
  qed
qed

lemma procesar_mem_Inr:
  assumes "procesar mem_store pm items t d = (Inr (ls, T), d1)"
  shows "\<exists>ms. d1 = d\<lparr>movimientos := movimientos d @ ms\<rparr> \<and> length ms = length items
          \<and> map movimiento_id ls = map m_id ms
          \<and> map m_id ms = map (\<lambda>i. JNum (Fin (of_nat i + 1))) [length (movimientos d) ..< length (movimientos d) + length items]"
  using assms
proof (induction items arbitrary: t d ls)
  case Nil
  then show ?case by simp
next
  case (Cons it rest)
  from Cons.prems obtain p mov d0 hechas where
    "validar it = None" and "pm (producto_id it) = Some p"
    and m: "crearMovimiento mem_store (salida (completar it p)) d = Inr (mov, d0)"
    and r: "procesar mem_store pm rest (round2 (js_add t (Number (sub_total (completar it p))))) d0
          = (Inr (hechas, T), d1)"
    and ls: "ls = (completar it p)\<lparr>movimiento_id := m_id mov\<rparr> # hechas"
    by (rule procesar_Cons_InrE)
  from m have m': "mem_crearMovimiento (salida (completar it p)) d = Inr (mov, d0)" by simp
  note id = mem_crearMovimiento_Inr(1)[OF m'] and d0 = mem_crearMovimiento_Inr(2)[OF m']
  from Cons.IH[OF r] obtain ms where
    a: "d1 = d0\<lparr>movimientos := movimientos d0 @ ms\<rparr>" and b: "length ms = length rest"
    and c: "map movimiento_id hechas = map m_id ms"
    and e: "map m_id ms = map (\<lambda>i. JNum (Fin (of_nat i + 1))) [length (movimientos d0) ..< length (movimientos d0) + length rest]"
    by blast
  have len0: "length (movimientos d0) = Suc (length (movimientos d))" using d0 by simp
  have "[length (movimientos d) ..< length (movimientos d) + length (it # rest)]
      = length (movimientos d) # [length (movimientos d0) ..< length (movimientos d0) + length rest]"
    unfolding len0 by (subst upt_conv_Cons) simp_all
  then have "map m_id (mov # ms) = map (\<lambda>i. JNum (Fin (of_nat i + 1))) [length (movimientos d) ..< length (movimientos d) + length (it # rest)]"
    using e id by simp
  moreover have "d1 = d\<lparr>movimientos := movimientos d @ (mov # ms)\<rparr>" using a d0 by simp
  moreover have "map movimiento_id ls = map m_id (mov # ms)" using c ls by simp
  ultimately show ?case using b
    by (intro exI[of _ "mov # ms"]) simp
qed

subsection \<open>The whole call\<close>

lemma cuerpo_mem_InrE:
  assumes "cuerpo mem_store d lote = (Inr creado, d')"
  obtains pm T d1 where "cargar_productos mem_store d lote = Inr pm"
    and "procesar mem_store pm lote (Fin 0) d = (Inr (creado, T), d1)"
    and "actualizar_venta mem_store creado T (d1\<lparr>detalle_ventas := detalle_ventas d1 @ creado\<rparr>) = Inr d'"
  using assms
  by (auto simp: cuerpo_def split: sum.splits prod.splits)

text \<open>Over the in-memory store a call is its body, undone when it fails.\<close>

lemma crearDetalleVenta_mem:
  "crearDetalleVenta mem_store d lote =
     (if lote = [] then (Inl ArrayVacio, d)
      else case cuerpo mem_store d lote of
             (Inl e, tx) \<Rightarrow> (Inl e, d)
           | (Inr creado, tx) \<Rightarrow> (Inr creado, tx))"
  by (simp add: crearDetalleVenta_def capturar_def split: prod.splits sum.splits)

lemma crearDetalleVenta_InrE:
  assumes "crearDetalleVenta mem_store store lote = (Inr creado, store')"
  obtains "lote \<noteq> []" and "cuerpo mem_store store lote = (Inr creado, store')"
  using assms
  by (auto simp: crearDetalleVenta_mem split: if_splits sum.splits prod.splits)


lemma procesar_venta_id_hd:
  assumes "procesar ops pm items t tx = (Inr (ls, T), tx')" and "items \<noteq> []"
  shows "ls \<noteq> [] \<and> venta_id (hd ls) = venta_id (hd items)"
proof -
  from assms(2) obtain it rest where items: "items = it # rest" by (cases items) auto
  from assms(1)[unfolded items] obtain p mov tx1 hechas where
    "validar it = None" and "pm (producto_id it) = Some p"
    and "crearMovimiento ops (salida (completar it p)) tx = Inr (mov, tx1)"
    and "procesar ops pm rest (round2 (js_add t (Number (sub_total (completar it p))))) tx1
           = (Inr (hechas, T), tx')"
    and ls: "ls = (completar it p)\<lparr>movimiento_id := m_id mov\<rparr> # hechas"
    by (rule procesar_Cons_InrE)
  show ?thesis by (simp add: ls items completar_keeps)
qed

lemma actualizar_venta_mem:
  assumes "actualizar_venta mem_store (l # ls) T d = Inr d'"
  shows "\<exists>v. truthy (venta_id l) \<and> find (\<lambda>w. v_id w = venta_id l) (ventas d) = Some v
           \<and> d' = (if currentTotal v = Fin 0 \<or> js_lt (currentTotal v) T
                   then d\<lparr>ventas := map (\<lambda>w. if v_id w = v_id v then v\<lparr>v_total := JNum T\<rparr> else w) (ventas d)\<rparr>
                   else d)"
  using assms
  by (auto simp: actualizar_venta_def reconciliar_def mem_venta_save_def Let_def
      split: if_splits option.splits)


subsection \<open>A line whose product is not in the store\<close>

lemma new_Map_None:
  assumes "\<forall>p \<in> set ps. p_id p \<noteq> k"
  shows "new_Map ps k = None"
proof -
  have "k \<notin> fst ` set (rev (map (\<lambda>p. (p_id p, p)) ps))"
    using assms by (auto simp: image_iff)
  then show ?thesis unfolding new_Map_def by (simp add: map_of_eq_None_iff)
qed

lemma cargar_productos_mem:
  "cargar_productos mem_store d lote =
     Inr (new_Map (filter (\<lambda>p. p_id p \<in> set (uniq (map producto_id lote))) (productos d)))"
  by (simp add: cargar_productos_def)

lemma procesar_producto_ausente:
  assumes "procesar ops pm pre t tx = (Inr (hechas, t1), tx1)"
    and "validar mala = None" and "pm (producto_id mala) = None"
  shows "procesar ops pm (pre @ mala # post) t tx
           = (Inl (ProductoNoEncontrado (producto_id mala)), tx1)"
  by (simp add: procesar_append[OF assms(1)] assms(2,3))

subsection \<open>A second call with the same batch\<close>

lemma mem_crearMovimiento_total:
  "\<exists>mov d0. mem_crearMovimiento datos d = Inr (mov, d0)"
  by (simp add: mem_crearMovimiento_def Let_def)

text \<open>The lines the loop accepts and the total it reaches do not depend on the state.\<close>

lemma procesar_mem_otro_estado:
  assumes "procesar mem_store pm items t d = (Inr (ls, T), d1)"
  shows "\<exists>ls' d1'. procesar mem_store pm items t d' = (Inr (ls', T), d1')"
  using assms
proof (induction items arbitrary: t d d' ls)
  case Nil
  then show ?case by simp
next
  case (Cons it rest)
  from Cons.prems obtain p mov d0 hechas where
    v: "validar it = None" and p: "pm (producto_id it) = Some p"
    and "crearMovimiento mem_store (salida (completar it p)) d = Inr (mov, d0)"
    and r: "procesar mem_store pm rest (round2 (js_add t (Number (sub_total (completar it p))))) d0
          = (Inr (hechas, T), d1)"
    and "ls = (completar it p)\<lparr>movimiento_id := m_id mov\<rparr> # hechas"
    by (rule procesar_Cons_InrE)
  obtain mov' d0' where m': "mem_crearMovimiento (salida (completar it p)) d' = Inr (mov', d0')"
    using mem_crearMovimiento_total by blast
  from Cons.IH[OF r, of d0'] obtain ls' d1' where
    r': "procesar mem_store pm rest (round2 (js_add t (Number (sub_total (completar it p))))) d0'
          = (Inr (ls', T), d1')"
    by blast
  show ?case by (simp add: v p m' r' Let_def)
qed

lemma find_map_replace:
  assumes "find (\<lambda>w. v_id w = k) xs = Some v" and "v_id v' = v_id v"
  shows "find (\<lambda>w. v_id w = k) (map (\<lambda>w. if v_id w = v_id v then v' else w) xs) = Some v'"
proof -
  from assms(1) have k: "v_id v = k" by (auto simp: find_Some_iff)
  from assms(1) show ?thesis unfolding k[symmetric]
  proof (induction xs)
    case Nil
    then show ?case by simp
  next
    case (Cons x xs)
    then show ?case using assms(2) by (auto split: if_splits)
  qed
qed

lemma map_replace_idem:
  assumes "v_id v' = k"
  shows "map (\<lambda>w. if v_id w = k then v' else w) (map (\<lambda>w. if v_id w = k then v' else w) xs)
           = map (\<lambda>w. if v_id w = k then v' else w) xs"
  using assms by (induction xs) auto

text \<open>Reconciling a second time with the same total changes nothing.\<close>

lemma reconciliar_dos_veces:
  assumes "find (\<lambda>w. v_id w = k) xs = Some v"
    and xs1_def: "xs1 = (if currentTotal v = Fin 0 \<or> js_lt (currentTotal v) T
                    then map (\<lambda>w. if v_id w = v_id v then v\<lparr>v_total := JNum T\<rparr> else w) xs
                    else xs)"
    and "find (\<lambda>w. v_id w = k) xs1 = Some v2"
  shows "(if currentTotal v2 = Fin 0 \<or> js_lt (currentTotal v2) T
          then map (\<lambda>w. if v_id w = v_id v2 then v2\<lparr>v_total := JNum T\<rparr> else w) xs1
          else xs1) = xs1"
proof (cases "currentTotal v = Fin 0 \<or> js_lt (currentTotal v) T")
  case False
  then have "xs1 = xs" by (simp add: xs1_def)
  with assms(1,3) have "v2 = v" by simp
  with False show ?thesis by simp
next
  case True
  then have xs1: "xs1 = map (\<lambda>w. if v_id w = v_id v then v\<lparr>v_total := JNum T\<rparr> else w) xs"
    by (simp add: xs1_def)
  have "find (\<lambda>w. v_id w = k) xs1 = Some (v\<lparr>v_total := JNum T\<rparr>)"
    unfolding xs1 by (rule find_map_replace[OF assms(1)]) simp
  with assms(3) have v2: "v2 = v\<lparr>v_total := JNum T\<rparr>" by simp
  have same: "v2\<lparr>v_total := JNum T\<rparr> = v2" by (simp add: v2)
  have id: "v_id v2 = v_id v" by (simp add: v2)
  have "map (\<lambda>w. if v_id w = v_id v2 then v2\<lparr>v_total := JNum T\<rparr> else w) xs1 = xs1"
    unfolding same id unfolding xs1 v2[symmetric]
    by (rule map_replace_idem) (simp add: id)
  then show ?thesis by simp
qed

lemma crearDetalleVenta_mem_exito:
  assumes "crearDetalleVenta mem_store d lote = (Inr creado, d')"
  obtains pm T ms v where "lote \<noteq> []"
    and "cargar_productos mem_store d lote = Inr pm"
    and "procesar mem_store pm lote (Fin 0) d
           = (Inr (creado, T), d\<lparr>movimientos := movimientos d @ ms\<rparr>)"
    and "length ms = length lote"
    and "map movimiento_id creado = map (\<lambda>i. JNum (Fin (of_nat i + 1)))
           [length (movimientos d) ..< length (movimientos d) + length lote]"
    and "truthy (venta_id (hd lote))"
    and "find (\<lambda>w. v_id w = venta_id (hd lote)) (ventas d) = Some v"
    and "d' = d\<lparr>movimientos := movimientos d @ ms,
                 detalle_ventas := detalle_ventas d @ creado,
                 ventas := (if currentTotal v = Fin 0 \<or> js_lt (currentTotal v) T
                            then map (\<lambda>w. if v_id w = v_id v then v\<lparr>v_total := JNum T\<rparr> else w) (ventas d)
                            else ventas d)\<rparr>"
proof -
  have ne: "lote \<noteq> []"
    using assms by (rule crearDetalleVenta_InrE)
  have "cuerpo mem_store d lote = (Inr creado, d')"
    using assms by (rule crearDetalleVenta_InrE)
  then obtain pm T d1 where pm: "cargar_productos mem_store d lote = Inr pm"
    and pr: "procesar mem_store pm lote (Fin 0) d = (Inr (creado, T), d1)"
    and av: "actualizar_venta mem_store creado T (d1\<lparr>detalle_ventas := detalle_ventas d1 @ creado\<rparr>) = Inr d'"
    by (rule cuerpo_mem_InrE)
  from procesar_mem_Inr[OF pr] obtain ms where
    d1: "d1 = d\<lparr>movimientos := movimientos d @ ms\<rparr>" and len: "length ms = length lote"
    and ids1: "map movimiento_id creado = map m_id ms"
    and ids2: "map m_id ms = map (\<lambda>i. JNum (Fin (of_nat i + 1)))
           [length (movimientos d) ..< length (movimientos d) + length lote]"
    by blast
  from procesar_venta_id_hd[OF pr ne] obtain l ls where
    creado: "creado = l # ls" and vid: "venta_id l = venta_id (hd lote)"
    by (cases creado) auto
  from actualizar_venta_mem[OF av[unfolded creado]] obtain v where
    t: "truthy (venta_id l)"
    and f: "find (\<lambda>w. v_id w = venta_id l) (ventas (d1\<lparr>detalle_ventas := detalle_ventas d1 @ (l # ls)\<rparr>)) = Some v"
    and d': "d' = (if currentTotal v = Fin 0 \<or> js_lt (currentTotal v) T
                   then (d1\<lparr>detalle_ventas := detalle_ventas d1 @ (l # ls)\<rparr>)\<lparr>ventas := map (\<lambda>w. if v_id w = v_id v then v\<lparr>v_total := JNum T\<rparr> else w) (ventas (d1\<lparr>detalle_ventas := detalle_ventas d1 @ (l # ls)\<rparr>))\<rparr>
                   else d1\<lparr>detalle_ventas := detalle_ventas d1 @ (l # ls)\<rparr>)"
    by blast
  have f': "find (\<lambda>w. v_id w = venta_id (hd lote)) (ventas d) = Some v"
    using f unfolding vid d1 by simp
  have d'': "d' = d\<lparr>movimientos := movimientos d @ ms,
                 detalle_ventas := detalle_ventas d @ creado,
                 ventas := (if currentTotal v = Fin 0 \<or> js_lt (currentTotal v) T
                            then map (\<lambda>w. if v_id w = v_id v then v\<lparr>v_total := JNum T\<rparr> else w) (ventas d)
                            else ventas d)\<rparr>"
    unfolding d' d1 creado
    by (cases "currentTotal v = Fin 0 \<or> js_lt (currentTotal v) T") simp_all
  show thesis
    by (rule that[OF ne pm pr[unfolded d1] len ids1[unfolded ids2] t[unfolded vid] f' d''])
qed

lemma crearDetalleVenta_mem_intro:
  assumes "lote \<noteq> []" and "cargar_productos mem_store d lote = Inr pm"
    and "procesar mem_store pm lote (Fin 0) d = (Inr (ls, T), d1)"
    and "truthy (venta_id (hd lote))"
    and "find (\<lambda>w. v_id w = venta_id (hd lote)) (ventas d) = Some v"
  shows "\<exists>d'. crearDetalleVenta mem_store d lote = (Inr ls, d')"
proof -
  from procesar_venta_id_hd[OF assms(3,1)] obtain l rest where
    ls: "ls = l # rest" and vid: "venta_id l = venta_id (hd lote)"
    by (cases ls) auto
  from procesar_mem_frame[OF assms(3)] obtain ms where
    d1: "d1 = d\<lparr>movimientos := movimientos d @ ms\<rparr>" by blast
  have vs: "ventas (d1\<lparr>detalle_ventas := detalle_ventas d1 @ ls\<rparr>) = ventas d"
    by (simp add: d1)
  have "\<exists>d'. actualizar_venta mem_store ls T (d1\<lparr>detalle_ventas := detalle_ventas d1 @ ls\<rparr>) = Inr d'"
    unfolding actualizar_venta_def ls
    using assms(4,5) vs[unfolded ls]
    by (simp add: vid reconciliar_def mem_venta_save_def Let_def)
  then obtain d' where
    "actualizar_venta mem_store ls T (d1\<lparr>detalle_ventas := detalle_ventas d1 @ ls\<rparr>) = Inr d'"
    by blast
  then have "crearDetalleVenta mem_store d lote = (Inr ls, d')"
    by (simp add: crearDetalleVenta_mem cuerpo_def assms(1,2,3))
  then show ?thesis by blast
qed

lemma ids_disjuntos:
  "set (map (\<lambda>i. JNum (Fin (of_nat i + 1))) [n ..< n + k])
     \<inter> set (map (\<lambda>i. JNum (Fin (of_nat i + 1))) [n + k ..< n + k + k]) = {}"
  by auto

subsection \<open>The role guard\<close>

lemma tienePermiso_iff:
  "roles u = Some rs \<Longrightarrow> tienePermiso rp u = (set rs \<inter> set rp \<noteq> {})"
  by (auto simp: tienePermiso_def list_ex_iff)

lemma verificarRol_resuelto:
  assumes "usuario req = Some u" and "cargar_roles consultar u = (Inr u1, qs)"
  shows "verificarRol rp consultar req =
           (if tienePermiso rp u1 then Next (req\<lparr>usuario := Some u1\<rparr>)
            else Respuesta (permisos_insuficientes rp req u1), qs)"
  by (simp add: verificarRol_def assms)

lemma verificarRol_con_roles:
  assumes "usuario req = Some u" and "roles u = Some rs"
  shows "verificarRol rp consultar req =
           (if \<exists>r \<in> set rs. r \<in> set rp then Next req
            else Respuesta (permisos_insuficientes rp req u), [])"
proof -
  have c: "cargar_roles consultar u = (Inr u, [])"
    using assms(2) by (simp add: cargar_roles_def)
  have r: "req\<lparr>usuario := Some u\<rparr> = req" using assms(1) by simp
  have t: "tienePermiso rp u = (\<exists>r \<in> set rs. r \<in> set rp)"
    using assms(2) by (simp add: tienePermiso_def list_ex_iff)
  show ?thesis
    unfolding verificarRol_resuelto[OF assms(1) c] r t by simp
qed

section \<open>The claims\<close>

text \<open>
  C1. When \<open>crearDetalleVenta\<close> posts a batch, with \<open>T\<close> the \<open>total_subtotales\<close> its
  loop accumulated, and \<open>v\<close> the parent sale it read under the lock: if the current total
  of \<open>v\<close> is exactly 0 or strictly less than \<open>T\<close>, the total of the sale is overwritten
  with \<open>T\<close>; otherwise the sales are left as they were. The witness posts lines summing
  to 25.00 to the sale 8, whose total is 100.00: its total stays.
\<close>

theorem regla_de_reconciliacion:
  assumes "crearDetalleVenta mem_store d lote = (Inr creado, d')"
  shows "\<exists>pm T tx1 v. cargar_productos mem_store d lote = Inr pm
          \<and> procesar mem_store pm lote (Fin 0) d = (Inr (creado, T), tx1)
          \<and> find (\<lambda>w. v_id w = venta_id (hd lote)) (ventas d) = Some v
          \<and> ventas d' = (if currentTotal v = Fin 0 \<or> js_lt (currentTotal v) T
                         then map (\<lambda>w. if v_id w = v_id v then v\<lparr>v_total := JNum T\<rparr> else w) (ventas d)
                         else ventas d)"
proof -
  have ne: "lote \<noteq> []"
    using assms by (rule crearDetalleVenta_InrE)
  have "cuerpo mem_store d lote = (Inr creado, d')"
    using assms by (rule crearDetalleVenta_InrE)
  then obtain pm T d1 where pm: "cargar_productos mem_store d lote = Inr pm"
    and pr: "procesar mem_store pm lote (Fin 0) d = (Inr (creado, T), d1)"
    and av: "actualizar_venta mem_store creado T (d1\<lparr>detalle_ventas := detalle_ventas d1 @ creado\<rparr>) = Inr d'"
    by (rule cuerpo_mem_InrE)
  from procesar_venta_id_hd[OF pr ne] obtain l ls where
    creado: "creado = l # ls" and vid: "venta_id l = venta_id (hd lote)"
    by (cases creado) auto
  from procesar_mem_frame[OF pr] obtain ms where "d1 = d\<lparr>movimientos := movimientos d @ ms\<rparr>"
    by blast
  then have vs: "ventas (d1\<lparr>detalle_ventas := detalle_ventas d1 @ creado\<rparr>) = ventas d" by simp
  from actualizar_venta_mem[OF av[unfolded creado]] obtain v where
    f: "find (\<lambda>w. v_id w = venta_id l) (ventas (d1\<lparr>detalle_ventas := detalle_ventas d1 @ (l # ls)\<rparr>)) = Some v"
    and d': "d' = (if currentTotal v = Fin 0 \<or> js_lt (currentTotal v) T
                   then (d1\<lparr>detalle_ventas := detalle_ventas d1 @ (l # ls)\<rparr>)\<lparr>ventas := map (\<lambda>w. if v_id w = v_id v then v\<lparr>v_total := JNum T\<rparr> else w) (ventas (d1\<lparr>detalle_ventas := detalle_ventas d1 @ (l # ls)\<rparr>))\<rparr>
                   else d1\<lparr>detalle_ventas := detalle_ventas d1 @ (l # ls)\<rparr>)"
    by blast
  have f': "find (\<lambda>w. v_id w = venta_id (hd lote)) (ventas d) = Some v"
    using f unfolding vs[unfolded creado] vid .
  have v': "ventas d' = (if currentTotal v = Fin 0 \<or> js_lt (currentTotal v) T
                   then map (\<lambda>w. if v_id w = v_id v then v\<lparr>v_total := JNum T\<rparr> else w) (ventas d)
                   else ventas d)"
    unfolding d' using vs[unfolded creado] by (cases "currentTotal v = Fin 0 \<or> js_lt (currentTotal v) T") simp_all
  show ?thesis
    by (intro exI conjI) (rule pm, rule pr, rule f', rule v')
qed

theorem regla_de_reconciliacion_witness:
  "\<exists>creado d'. crearDetalleVenta mem_store tienda lote_8 = (Inr creado, d')
     \<and> ventas d' = ventas tienda
     \<and> (\<exists>pm tx1 v. cargar_productos mem_store tienda lote_8 = Inr pm
          \<and> procesar mem_store pm lote_8 (Fin 0) tienda = (Inr (creado, Fin 25), tx1)
          \<and> find (\<lambda>w. v_id w = JNum (Fin 8)) (ventas tienda) = Some v
          \<and> currentTotal v = Fin 100)"
proof -
  have "\<not> isl (fst (crearDetalleVenta mem_store tienda lote_8))"
    by code_simp
  then obtain creado d' where run: "crearDetalleVenta mem_store tienda lote_8 = (Inr creado, d')"
    by (cases "crearDetalleVenta mem_store tienda lote_8";
        cases "fst (crearDetalleVenta mem_store tienda lote_8)") auto
  from regla_de_reconciliacion[OF run] obtain pm T tx1 v where
    pm: "cargar_productos mem_store tienda lote_8 = Inr pm"
    and pr: "procesar mem_store pm lote_8 (Fin 0) tienda = (Inr (creado, T), tx1)"
    and v: "find (\<lambda>w. v_id w = venta_id (hd lote_8)) (ventas tienda) = Some v"
    and d': "ventas d' = (if currentTotal v = Fin 0 \<or> js_lt (currentTotal v) T
                         then map (\<lambda>w. if v_id w = v_id v then v\<lparr>v_total := JNum T\<rparr> else w) (ventas tienda)
                         else ventas tienda)"
    by blast
  have vid: "venta_id (hd lote_8) = JNum (Fin 8)" by (simp add: lote_8_def linea_def)
  have "find (\<lambda>w. v_id w = JNum (Fin 8)) (ventas tienda) = Some \<lparr>v_id = JNum (Fin 8), v_total = JStr ''100.00''\<rparr>"
    by (simp add: tienda_def)
  with v vid have v8: "v = \<lparr>v_id = JNum (Fin 8), v_total = JStr ''100.00''\<rparr>" by simp
  have ct: "currentTotal \<lparr>v_id = JNum (Fin 8), v_total = JStr ''100.00''\<rparr> = Fin 100" by code_simp
  have "snd (projr (fst (procesar mem_store pm lote_8 (Fin 0) tienda))) = T" by (simp add: pr)
  moreover have "(case cargar_productos mem_store tienda lote_8 of Inr m \<Rightarrow> snd (projr (fst (procesar mem_store m lote_8 (Fin 0) tienda))) | Inl e \<Rightarrow> NaN) = Fin 25"
    by code_simp
  ultimately have T: "T = Fin 25" by (simp add: pm)
  have "ventas d' = ventas tienda" using d' by (simp add: v8 ct T)
  then show ?thesis using run pm pr v ct unfolding T vid v8 by blast
qed

text \<open>
  C3, as stated, fails: the absent product is detected inside the loop, line by line,
  so for an offending line that is not the first one the movements of the lines before
  it have already been created in the transaction. Here the batch has a valid first
  line and a second line with the unknown product 99: the transaction holds the
  movement of the first line when the error is thrown.
\<close>

theorem escritura_antes_de_detectar_counterexample:
  "fst (cuerpo mem_store tienda lote_desconocido) = Inl (ProductoNoEncontrado (JNum (Fin 99)))
   \<and> movimientos tienda = []
   \<and> map mov_producto_id (movimientos (snd (cuerpo mem_store tienda lote_desconocido)))
       = [JNum (Fin 1)]"
  by code_simp

text \<open>
  C3, amended. When the lines before the offending one are processed and the offending
  line passes the checks of its product id and its quantity, \<open>crearDetalleVenta\<close>
  fails with the unknown-product error for that line; at that point the transaction
  holds one new movement for each preceding line, and the rollback leaves the store as
  it was. No write precedes the detection only when the offending line is the first.
\<close>

theorem producto_ausente_detectado_en_el_bucle:
  assumes "cargar_productos mem_store d (pre @ mala # post) = Inr pm"
    and "procesar mem_store pm pre (Fin 0) d = (Inr (hechas, t), d1)"
    and "validar mala = None"
    and "\<forall>p \<in> set (productos d). p_id p \<noteq> producto_id mala"
  shows "cuerpo mem_store d (pre @ mala # post)
           = (Inl (ProductoNoEncontrado (producto_id mala)), d1)
       \<and> length (movimientos d1) = length (movimientos d) + length pre
       \<and> crearDetalleVenta mem_store d (pre @ mala # post)
           = (Inl (ProductoNoEncontrado (producto_id mala)), d)"
proof -
  have "\<forall>p \<in> set (filter (\<lambda>p. p_id p \<in> set (uniq (map producto_id (pre @ mala # post)))) (productos d)).
          p_id p \<noteq> producto_id mala"
    using assms(4) by simp
  then have "new_Map (filter (\<lambda>p. p_id p \<in> set (uniq (map producto_id (pre @ mala # post)))) (productos d))
               (producto_id mala) = None"
    by (rule new_Map_None)
  then have none: "pm (producto_id mala) = None"
    using assms(1) unfolding cargar_productos_mem by simp
  have pr: "procesar mem_store pm (pre @ mala # post) (Fin 0) d
           = (Inl (ProductoNoEncontrado (producto_id mala)), d1)"
    by (rule procesar_producto_ausente[OF assms(2,3) none])
  have c: "cuerpo mem_store d (pre @ mala # post)
           = (Inl (ProductoNoEncontrado (producto_id mala)), d1)"
    by (simp add: cuerpo_def assms(1) pr)
  from procesar_mem_Inr[OF assms(2)] obtain ms where
    "d1 = d\<lparr>movimientos := movimientos d @ ms\<rparr>" and "length ms = length pre"
    by blast
  then have len: "length (movimientos d1) = length (movimientos d) + length pre"
    by simp
  have "crearDetalleVenta mem_store d (pre @ mala # post)
           = (Inl (ProductoNoEncontrado (producto_id mala)), d)"
    by (simp add: crearDetalleVenta_mem c)
  with c len show ?thesis by simp
qed

theorem producto_ausente_detectado_en_el_bucle_witness:
  "cuerpo mem_store tienda lote_desconocido
     = (Inl (ProductoNoEncontrado (JNum (Fin 99))), snd (cuerpo mem_store tienda lote_desconocido))
   \<and> length (movimientos (snd (cuerpo mem_store tienda lote_desconocido))) = 1
   \<and> crearDetalleVenta mem_store tienda lote_desconocido
     = (Inl (ProductoNoEncontrado (JNum (Fin 99))), tienda)"
proof -
  define pre where "pre = [linea (JNum (Fin 1)) (JNum (Fin 2)) (JNum (Fin 7))]"
  define mala where "mala = linea (JNum (Fin 99)) (JNum (Fin 1)) (JNum (Fin 7))"
  define pm where "pm = new_Map (filter (\<lambda>p. p_id p \<in> set (uniq (map producto_id (pre @ mala # [])))) (productos tienda))"
  have lote: "lote_desconocido = pre @ mala # []"
    by (simp add: lote_desconocido_def pre_def mala_def)
  have a1: "cargar_productos mem_store tienda (pre @ mala # []) = Inr pm"
    unfolding pm_def by (rule cargar_productos_mem)
  obtain r d1 where pr: "procesar mem_store pm pre (Fin 0) tienda = (r, d1)"
    by (cases "procesar mem_store pm pre (Fin 0) tienda")
  have "\<not> isl (fst (procesar mem_store (new_Map (filter (\<lambda>p. p_id p \<in> set (uniq (map producto_id ([linea (JNum (Fin 1)) (JNum (Fin 2)) (JNum (Fin 7))] @ linea (JNum (Fin 99)) (JNum (Fin 1)) (JNum (Fin 7)) # [])))) (productos tienda))) [linea (JNum (Fin 1)) (JNum (Fin 2)) (JNum (Fin 7))] (Fin 0) tienda))"
    by code_simp
  then have "\<not> isl r" using pr by (simp add: pm_def pre_def mala_def)
  then obtain hechas t where r: "r = Inr (hechas, t)" by (cases r) auto
  have a3: "validar mala = None" unfolding mala_def by code_simp
  have a4: "\<forall>p \<in> set (productos tienda). p_id p \<noteq> producto_id mala"
    by (simp add: tienda_def mala_def linea_def)
  have pid: "producto_id mala = JNum (Fin 99)" by (simp add: mala_def linea_def)
  note th = producto_ausente_detectado_en_el_bucle[OF a1 pr[unfolded r] a3 a4, folded lote, unfolded pid]
  have len0: "length (movimientos tienda) = 0" by (simp add: tienda_def)
  have len1: "length pre = 1" by (simp add: pre_def)
  from th show ?thesis by (simp add: len0 len1)
qed

text \<open>
  C4. The quantity check is \<open>!cantidad || Number(cantidad) <= 0\<close>. For the string
  \<open>abc\<close> the first test is false and \<open>Number\<close> is \<open>NaN\<close>, for which \<open><=\<close> is
  false: the line is accepted, its subtotal is \<open>NaN\<close>, a movement with quantity \<open>abc\<close>
  is created and the total of the sale 7 becomes \<open>NaN\<close>.
\<close>

theorem cantidad_no_numerica_aceptada:
  "truthy (JStr ''abc'')
   \<and> Number (JStr ''abc'') = NaN
   \<and> \<not> js_le (Number (JStr ''abc'')) (Fin 0)
   \<and> \<not> isl (fst (crearDetalleVenta mem_store tienda lote_abc))
   \<and> map cantidad (projr (fst (crearDetalleVenta mem_store tienda lote_abc))) = [JStr ''abc'']
   \<and> map sub_total (projr (fst (crearDetalleVenta mem_store tienda lote_abc))) = [JNum NaN]
   \<and> map mov_cantidad (movimientos (snd (crearDetalleVenta mem_store tienda lote_abc))) = [JStr ''abc'']
   \<and> map v_total (ventas (snd (crearDetalleVenta mem_store tienda lote_abc))) = [JNum NaN, JStr ''100.00'']"
  by code_simp

text \<open>
  C5, as stated, fails: the second of two identical calls does not leave a larger
  total. Posting the two lines of 20.00 and 5.00 to the sale 7 (total 0) sets its total
  to 25; posting them again leaves it at 25, since \<open>25 < 25\<close> is false and 25 is not 0.
\<close>

theorem total_mayor_counterexample:
  "\<not> isl (fst (crearDetalleVenta mem_store tienda lote_7))
   \<and> map v_total (ventas (snd (crearDetalleVenta mem_store tienda lote_7)))
       = [JNum (Fin 25), JStr ''100.00'']
   \<and> \<not> isl (fst (crearDetalleVenta mem_store (snd (crearDetalleVenta mem_store tienda lote_7)) lote_7))
   \<and> map v_total (ventas (snd (crearDetalleVenta mem_store
         (snd (crearDetalleVenta mem_store tienda lote_7)) lote_7)))
       = [JNum (Fin 25), JStr ''100.00'']"
  by code_simp

text \<open>
  C5, amended. After a call that succeeds, a second call with the same batch succeeds
  too and creates its own InventoryMovement records: as many as the batch has lines,
  added after those of the first call, with ids that no line of the first call refers
  to. The totals of the sales after the second call are those after the first call.
\<close>

theorem segunda_llamada:
  assumes "crearDetalleVenta mem_store d lote = (Inr creado1, d1)"
  shows "\<exists>creado2 d2. crearDetalleVenta mem_store d1 lote = (Inr creado2, d2)
          \<and> length (movimientos d1) = length (movimientos d) + length lote
          \<and> length (movimientos d2) = length (movimientos d1) + length lote
          \<and> take (length (movimientos d1)) (movimientos d2) = movimientos d1
          \<and> set (map movimiento_id creado1) \<inter> set (map movimiento_id creado2) = {}
          \<and> ventas d2 = ventas d1"
proof -
  from assms obtain pm T ms v where ne: "lote \<noteq> []"
    and pm: "cargar_productos mem_store d lote = Inr pm"
    and pr: "procesar mem_store pm lote (Fin 0) d
           = (Inr (creado1, T), d\<lparr>movimientos := movimientos d @ ms\<rparr>)"
    and len: "length ms = length lote"
    and ids: "map movimiento_id creado1 = map (\<lambda>i. JNum (Fin (of_nat i + 1)))
           [length (movimientos d) ..< length (movimientos d) + length lote]"
    and tr: "truthy (venta_id (hd lote))"
    and f: "find (\<lambda>w. v_id w = venta_id (hd lote)) (ventas d) = Some v"
    and d1: "d1 = d\<lparr>movimientos := movimientos d @ ms,
                 detalle_ventas := detalle_ventas d @ creado1,
                 ventas := (if currentTotal v = Fin 0 \<or> js_lt (currentTotal v) T
                            then map (\<lambda>w. if v_id w = v_id v then v\<lparr>v_total := JNum T\<rparr> else w) (ventas d)
                            else ventas d)\<rparr>"
    by (rule crearDetalleVenta_mem_exito)
  have vs1: "ventas d1 = (if currentTotal v = Fin 0 \<or> js_lt (currentTotal v) T
                            then map (\<lambda>w. if v_id w = v_id v then v\<lparr>v_total := JNum T\<rparr> else w) (ventas d)
                            else ventas d)"
    by (simp add: d1)
  have len1: "length (movimientos d1) = length (movimientos d) + length lote"
    by (simp add: d1 len)
  have "productos d1 = productos d" by (simp add: d1)
  then have pm1: "cargar_productos mem_store d1 lote = Inr pm"
    using pm by (simp add: cargar_productos_mem)
  from procesar_mem_otro_estado[OF pr, of d1] obtain ls' d1' where
    pr1: "procesar mem_store pm lote (Fin 0) d1 = (Inr (ls', T), d1')"
    by blast
  have "\<exists>v2. find (\<lambda>w. v_id w = venta_id (hd lote)) (ventas d1) = Some v2"
  proof (cases "currentTotal v = Fin 0 \<or> js_lt (currentTotal v) T")
    case True
    have "find (\<lambda>w. v_id w = venta_id (hd lote))
            (map (\<lambda>w. if v_id w = v_id v then v\<lparr>v_total := JNum T\<rparr> else w) (ventas d))
          = Some (v\<lparr>v_total := JNum T\<rparr>)"
      by (rule find_map_replace[OF f]) simp
    then show ?thesis using True by (simp add: vs1)
  next
    case False
    then show ?thesis using f by (simp add: vs1)
  qed
  then obtain v2 where f2: "find (\<lambda>w. v_id w = venta_id (hd lote)) (ventas d1) = Some v2"
    by blast
  from crearDetalleVenta_mem_intro[OF ne pm1 pr1 tr f2] obtain d2 where
    run2: "crearDetalleVenta mem_store d1 lote = (Inr ls', d2)" by blast
  from run2 obtain pm' T' ms' v' where
    pm': "cargar_productos mem_store d1 lote = Inr pm'"
    and pr': "procesar mem_store pm' lote (Fin 0) d1
           = (Inr (ls', T'), d1\<lparr>movimientos := movimientos d1 @ ms'\<rparr>)"
    and len': "length ms' = length lote"
    and ids': "map movimiento_id ls' = map (\<lambda>i. JNum (Fin (of_nat i + 1)))
           [length (movimientos d1) ..< length (movimientos d1) + length lote]"
    and f': "find (\<lambda>w. v_id w = venta_id (hd lote)) (ventas d1) = Some v'"
    and d2: "d2 = d1\<lparr>movimientos := movimientos d1 @ ms',
                 detalle_ventas := detalle_ventas d1 @ ls',
                 ventas := (if currentTotal v' = Fin 0 \<or> js_lt (currentTotal v') T'
                            then map (\<lambda>w. if v_id w = v_id v' then v'\<lparr>v_total := JNum T'\<rparr> else w) (ventas d1)
                            else ventas d1)\<rparr>"
    by (rule crearDetalleVenta_mem_exito)
  have "pm' = pm" using pm' pm1 by simp
  then have "T' = T" using pr' pr1 by simp
  have "v' = v2" using f' f2 by simp
  have vs2: "ventas d2 = (if currentTotal v2 = Fin 0 \<or> js_lt (currentTotal v2) T
                            then map (\<lambda>w. if v_id w = v_id v2 then v2\<lparr>v_total := JNum T\<rparr> else w) (ventas d1)
                            else ventas d1)"
    by (simp add: d2 \<open>T' = T\<close> \<open>v' = v2\<close>)
  have same: "ventas d2 = ventas d1"
    unfolding vs2 by (rule reconciliar_dos_veces[OF f vs1 f2])
  have len2: "length (movimientos d2) = length (movimientos d1) + length lote"
    by (simp add: d2 len')
  have tk: "take (length (movimientos d1)) (movimientos d2) = movimientos d1"
    by (simp add: d2)
  have disj: "set (map movimiento_id creado1) \<inter> set (map movimiento_id ls') = {}"
    unfolding ids ids' len1 by (rule ids_disjuntos)
  show ?thesis
    by (intro exI conjI) (rule run2, rule len1, rule len2, rule tk, rule disj, rule same)
qed

theorem segunda_llamada_witness:
  "\<exists>creado1 d1 creado2 d2.
      crearDetalleVenta mem_store tienda lote_7 = (Inr creado1, d1)
    \<and> crearDetalleVenta mem_store d1 lote_7 = (Inr creado2, d2)
    \<and> length (movimientos d1) = 2 \<and> length (movimientos d2) = 4
    \<and> take 2 (movimientos d2) = movimientos d1
    \<and> set (map movimiento_id creado1) \<inter> set (map movimiento_id creado2) = {}
    \<and> ventas d2 = ventas d1"
proof -
  have "\<not> isl (fst (crearDetalleVenta mem_store tienda lote_7))"
    by code_simp
  then obtain creado1 d1 where run: "crearDetalleVenta mem_store tienda lote_7 = (Inr creado1, d1)"
    by (cases "crearDetalleVenta mem_store tienda lote_7";
        cases "fst (crearDetalleVenta mem_store tienda lote_7)") auto
  have l0: "length (movimientos tienda) = 0" by (simp add: tienda_def)
  have l7: "length lote_7 = 2" by (simp add: lote_7_def)
  from segunda_llamada[OF run] obtain creado2 d2 where
    a: "crearDetalleVenta mem_store d1 lote_7 = (Inr creado2, d2)"
    and b: "length (movimientos d1) = length (movimientos tienda) + length lote_7"
    and c: "length (movimientos d2) = length (movimientos d1) + length lote_7"
    and e: "take (length (movimientos d1)) (movimientos d2) = movimientos d1"
    and f: "set (map movimiento_id creado1) \<inter> set (map movimiento_id creado2) = {}"
    and g: "ventas d2 = ventas d1"
    by blast
  have b': "length (movimientos d1) = 2" using b by (simp add: l0 l7)
  have c': "length (movimientos d2) = 4" using c by (simp add: b' l7)
  show ?thesis
    by (intro exI conjI) (rule run, rule a, rule b', rule c', rule e[unfolded b'], rule f, rule g)
qed



text \<open>
  C9. The guard \<open>verificarRol(rp)\<close> answers 401 \<open>AUTHENTICATION_REQUIRED\<close> when the
  request has no user. Otherwise, with \<open>rs\<close> the roles of the user (those the request
  carries, or those read from the store when it carries none), the request goes on
  exactly when some role of \<open>rs\<close> is in \<open>rp\<close>; when none is, the answer is 403
  \<open>INSUFFICIENT_PERMISSIONS\<close> with the required roles, the username and the description
  of the operation. (When the store throws while the roles are read the answer is 500
  \<open>ROLE_VERIFICATION_ERROR\<close>.) The witness requires \<open>admin\<close>: a user with the role
  \<open>vendedor\<close> is denied, a user with \<open>admin\<close> and \<open>vendedor\<close> goes on.
\<close>

theorem guardia_de_roles:
  "(usuario req = None \<longrightarrow>
      verificarRol rp consultar req = (Respuesta (rechazo 401 ''AUTHENTICATION_REQUIRED''), []))
   \<and> (\<forall>u rs. usuario req = Some u
          \<and> (roles u = Some rs \<or> roles u = None \<and> consultar (usuario_id u) = Inr rs) \<longrightarrow>
        ((\<exists>req'. fst (verificarRol rp consultar req) = Next req') = (set rs \<inter> set rp \<noteq> {}))
      \<and> (set rs \<inter> set rp \<noteq> {} \<longrightarrow>
           fst (verificarRol rp consultar req) = Next (req\<lparr>usuario := Some (u\<lparr>roles := Some rs\<rparr>)\<rparr>))
      \<and> (set rs \<inter> set rp = {} \<longrightarrow>
           fst (verificarRol rp consultar req) =
             Respuesta \<lparr>http_status = 403, status = ''error'', code = ''INSUFFICIENT_PERMISSIONS'',
                        detalles = Some \<lparr>rolesRequeridos = rp, det_usuario = username u,
                                         operacion = obtenerAccionDeRuta req\<rparr>\<rparr>))
   \<and> (\<forall>u e. usuario req = Some u \<and> roles u = None \<and> consultar (usuario_id u) = Inl e \<longrightarrow>
        fst (verificarRol rp consultar req) = Respuesta (rechazo 500 ''ROLE_VERIFICATION_ERROR''))"
proof (intro conjI allI impI)
  assume "usuario req = None"
  then show "verificarRol rp consultar req = (Respuesta (rechazo 401 ''AUTHENTICATION_REQUIRED''), [])"
    by (simp add: verificarRol_def)
next
  fix u e
  assume "usuario req = Some u \<and> roles u = None \<and> consultar (usuario_id u) = Inl e"
  then show "fst (verificarRol rp consultar req) = Respuesta (rechazo 500 ''ROLE_VERIFICATION_ERROR'')"
    by (simp add: verificarRol_def cargar_roles_def)
next
  fix u rs
  assume h: "usuario req = Some u
          \<and> (roles u = Some rs \<or> roles u = None \<and> consultar (usuario_id u) = Inr rs)"
  then have u: "usuario req = Some u" by simp
  from h obtain qs where c: "cargar_roles consultar u = (Inr (u\<lparr>roles := Some rs\<rparr>), qs)"
    by (auto simp: cargar_roles_def)
  have tp: "tienePermiso rp (u\<lparr>roles := Some rs\<rparr>) = (set rs \<inter> set rp \<noteq> {})"
    by (rule tienePermiso_iff) simp
  note v = verificarRol_resuelto[OF u c, of rp]
  show "(\<exists>req'. fst (verificarRol rp consultar req) = Next req') = (set rs \<inter> set rp \<noteq> {})"
    unfolding v tp by simp
  {
    assume "set rs \<inter> set rp \<noteq> {}"
    then show "fst (verificarRol rp consultar req) = Next (req\<lparr>usuario := Some (u\<lparr>roles := Some rs\<rparr>)\<rparr>)"
      unfolding v tp by simp
  }
  {
    assume "set rs \<inter> set rp = {}"
    then show "fst (verificarRol rp consultar req) =
             Respuesta \<lparr>http_status = 403, status = ''error'', code = ''INSUFFICIENT_PERMISSIONS'',
                        detalles = Some \<lparr>rolesRequeridos = rp, det_usuario = username u,
                                         operacion = obtenerAccionDeRuta req\<rparr>\<rparr>"
      unfolding v tp by (simp add: permisos_insuficientes_def)
  }
qed

theorem guardia_de_roles_witness:
  "fst (verificarRol [''admin''] (consultar_tabla []) (con_usuario (login_payload 1 ''luis'' [''vendedor''])))
     = Respuesta \<lparr>http_status = 403, status = ''error'', code = ''INSUFFICIENT_PERMISSIONS'',
                  detalles = Some \<lparr>rolesRequeridos = [''admin''], det_usuario = ''luis'',
                                   operacion = ''Ver este recurso''\<rparr>\<rparr>
   \<and> fst (verificarRol [''admin''] (consultar_tabla []) (con_usuario (login_payload 3 ''ana'' [''admin'', ''vendedor''])))
     = Next (con_usuario (login_payload 3 ''ana'' [''admin'', ''vendedor'']))
   \<and> verificarRol [''admin''] (consultar_tabla []) (peticion None)
     = (Respuesta (rechazo 401 ''AUTHENTICATION_REQUIRED''), [])"
proof -
  let ?luis = "login_payload 1 ''luis'' [''vendedor'']"
  let ?ana = "login_payload 3 ''ana'' [''admin'', ''vendedor'']"
  note g1 = guardia_de_roles[of "con_usuario ?luis" "[''admin'']" "consultar_tabla []"]
  note g2 = guardia_de_roles[of "con_usuario ?ana" "[''admin'']" "consultar_tabla []"]
  note g3 = guardia_de_roles[of "peticion None" "[''admin'']" "consultar_tabla []"]
  have op: "obtenerAccionDeRuta (con_usuario ?luis) = ''Ver este recurso''"
    by code_simp
  have u1: "usuario (con_usuario ?luis) = Some ?luis" "roles ?luis = Some [''vendedor'']"
    "username ?luis = ''luis''"
    by (simp_all add: con_usuario_def login_payload_def)
  have u2: "usuario (con_usuario ?ana) = Some ?ana" "roles ?ana = Some [''admin'', ''vendedor'']"
    by (simp_all add: con_usuario_def login_payload_def)
  have same: "(con_usuario ?ana)\<lparr>usuario := Some (?ana\<lparr>roles := Some [''admin'', ''vendedor'']\<rparr>)\<rparr> = con_usuario ?ana"
    by (simp add: con_usuario_def login_payload_def)
  have d: "set [''vendedor''] \<inter> set [''admin''] = {}" by simp
  have i: "set [''admin'', ''vendedor''] \<inter> set [''admin''] \<noteq> {}" by simp
  have r1: "fst (verificarRol [''admin''] (consultar_tabla []) (con_usuario ?luis))
     = Respuesta \<lparr>http_status = 403, status = ''error'', code = ''INSUFFICIENT_PERMISSIONS'',
                  detalles = Some \<lparr>rolesRequeridos = [''admin''], det_usuario = ''luis'',
                                   operacion = ''Ver este recurso''\<rparr>\<rparr>"
    using g1 u1 d op by metis
  have r2: "fst (verificarRol [''admin''] (consultar_tabla []) (con_usuario ?ana)) = Next (con_usuario ?ana)"
    using g2 u2 i same by metis
  have r3: "verificarRol [''admin''] (consultar_tabla []) (peticion None)
     = (Respuesta (rechazo 401 ''AUTHENTICATION_REQUIRED''), [])"
    using g3 by (simp add: peticion_def)
  show ?thesis using r1 r2 r3 by simp
qed

text \<open>
  C10. When the user of the request already carries a list of roles, \<open>verificarRol\<close>
  sends no query to the store and decides from that list alone, whatever the store
  holds. \<open>login\<close> puts the whole list of roles into the payload it signs, so a request
  authenticated with such a token carries the list: the guard never asks the store,
  and an edit of the user's roles is not seen while the token is accepted. In the
  witness the store has lost the role \<open>admin\<close> of the user, and the token still
  opens an \<open>admin\<close> route; without the list in the request the store is asked and the
  user is denied.
\<close>

theorem roles_del_token_sin_consulta:
  "(\<forall>u rs. usuario req = Some u \<and> roles u = Some rs \<longrightarrow>
        snd (verificarRol rp consultar req) = []
      \<and> fst (verificarRol rp consultar req)
          = (if \<exists>r \<in> set rs. r \<in> set rp then Next req
             else Respuesta (permisos_insuficientes rp req u))
      \<and> verificarRol rp consultar' req = verificarRol rp consultar req)
   \<and> roles (login_payload uid nombre rs0) = Some rs0
   \<and> (\<forall>t. extraer_token (authorization req) = Some t \<and> t \<noteq> []
          \<and> jv t = Inr (login_payload uid nombre rs0) \<longrightarrow>
        (\<exists>req'. autenticarToken jv req = Next req'
           \<and> snd (verificarRol rp consultar req') = []
           \<and> fst (verificarRol rp consultar req')
               = (if \<exists>r \<in> set rs0. r \<in> set rp then Next req'
                  else Respuesta (permisos_insuficientes rp req' (login_payload uid nombre rs0)))
           \<and> verificarRol rp consultar' req' = verificarRol rp consultar req'))"
proof (intro conjI allI impI)
  fix u rs
  assume h: "usuario req = Some u \<and> roles u = Some rs"
  then have u: "usuario req = Some u" and r: "roles u = Some rs" by simp_all
  show "snd (verificarRol rp consultar req) = []"
    unfolding verificarRol_con_roles[OF u r] by simp
  show "fst (verificarRol rp consultar req)
          = (if \<exists>r \<in> set rs. r \<in> set rp then Next req
             else Respuesta (permisos_insuficientes rp req u))"
    unfolding verificarRol_con_roles[OF u r] by simp
  show "verificarRol rp consultar' req = verificarRol rp consultar req"
    unfolding verificarRol_con_roles[OF u r] by simp
next
  show "roles (login_payload uid nombre rs0) = Some rs0"
    by (simp add: login_payload_def)
next
  fix t
  assume h: "extraer_token (authorization req) = Some t \<and> t \<noteq> []
          \<and> jv t = Inr (login_payload uid nombre rs0)"
  define req' where "req' = req\<lparr>usuario := Some (login_payload uid nombre rs0)\<rparr>"
  have a: "autenticarToken jv req = Next req'"
    using h by (simp add: autenticarToken_def verificarToken_def req'_def)
  have u: "usuario req' = Some (login_payload uid nombre rs0)" by (simp add: req'_def)
  have r: "roles (login_payload uid nombre rs0) = Some rs0" by (simp add: login_payload_def)
  note v = verificarRol_con_roles[OF u r]
  show "\<exists>req'. autenticarToken jv req = Next req'
           \<and> snd (verificarRol rp consultar req') = []
           \<and> fst (verificarRol rp consultar req')
               = (if \<exists>r \<in> set rs0. r \<in> set rp then Next req'
                  else Respuesta (permisos_insuficientes rp req' (login_payload uid nombre rs0)))
           \<and> verificarRol rp consultar' req' = verificarRol rp consultar req'"
    by (rule exI[of _ req']) (simp add: a v)
qed

theorem roles_del_token_sin_consulta_witness:
  "\<exists>req'. autenticarToken jwt_demo (peticion (Some ''Bearer vigente'')) = Next req'
     \<and> verificarRol [''admin''] (consultar_tabla [(3, ''admin''), (3, ''vendedor'')]) req' = (Next req', [])
     \<and> verificarRol [''admin''] (consultar_tabla [(3, ''vendedor'')]) req' = (Next req', [])
     \<and> fst (verificarRol [''admin''] (consultar_tabla [(3, ''vendedor'')])
              (req'\<lparr>usuario := Some ((login_payload 3 ''ana'' [''admin'', ''vendedor''])\<lparr>roles := None\<rparr>)\<rparr>))
         = Respuesta (permisos_insuficientes [''admin'']
             (req'\<lparr>usuario := Some ((login_payload 3 ''ana'' [''admin'', ''vendedor''])\<lparr>roles := None\<rparr>)\<rparr>)
             ((login_payload 3 ''ana'' [''admin'', ''vendedor''])\<lparr>roles := Some [''vendedor'']\<rparr>))"
proof -
  let ?req = "peticion (Some ''Bearer vigente'')"
  let ?t1 = "consultar_tabla [(3, ''admin''), (3, ''vendedor'')]"
  let ?t2 = "consultar_tabla [(3, ''vendedor'')]"
  have e: "extraer_token (authorization ?req) = Some ''vigente''" by code_simp
  have j: "jwt_demo ''vigente'' = Inr (login_payload 3 ''ana'' [''admin'', ''vendedor''])"
    by (simp add: jwt_demo_def)
  have ne: "''vigente'' \<noteq> []" by simp
  from roles_del_token_sin_consulta[of ?req "[''admin'']" ?t2 ?t1 3 "''ana''" "[''admin'', ''vendedor'']" jwt_demo]
    e j ne
  obtain req' where a: "autenticarToken jwt_demo ?req = Next req'"
    and s: "snd (verificarRol [''admin''] ?t2 req') = []"
    and f: "fst (verificarRol [''admin''] ?t2 req')
               = (if \<exists>r \<in> set [''admin'', ''vendedor'']. r \<in> set [''admin''] then Next req'
                  else Respuesta (permisos_insuficientes [''admin''] req' (login_payload 3 ''ana'' [''admin'', ''vendedor''])))"
    and q: "verificarRol [''admin''] ?t1 req' = verificarRol [''admin''] ?t2 req'"
    by blast
  have f': "fst (verificarRol [''admin''] ?t2 req') = Next req'" using f by simp
  have v2: "verificarRol [''admin''] ?t2 req' = (Next req', [])"
    using f' s by (metis prod.collapse)
  have v1: "verificarRol [''admin''] ?t1 req' = (Next req', [])"
    using q v2 by simp
  have sin: "fst (verificarRol [''admin''] ?t2
              (req'\<lparr>usuario := Some ((login_payload 3 ''ana'' [''admin'', ''vendedor''])\<lparr>roles := None\<rparr>)\<rparr>))
         = Respuesta (permisos_insuficientes [''admin'']
             (req'\<lparr>usuario := Some ((login_payload 3 ''ana'' [''admin'', ''vendedor''])\<lparr>roles := None\<rparr>)\<rparr>)
             ((login_payload 3 ''ana'' [''admin'', ''vendedor''])\<lparr>roles := Some [''vendedor'']\<rparr>))"
    by (simp add: verificarRol_def cargar_roles_def consultar_tabla_def login_payload_def
        tienePermiso_def)
  show ?thesis
    by (intro exI conjI) (rule a, rule v1, rule v2, rule sin)
qed

end
